theory Spec2Isabelle
  imports Complex_Main
begin

section \<open>The portal's data layer (src/db.js)\<close>

text \<open>
  The module keeps nine named collections in the browser's local storage, each an ordered
  sequence of flat records. The collections are modelled as lists of records, the store as
  a record of these lists, and every operation as a function from the store to the new
  store (and a result).

  Conventions of the embedding:
  \<^item> a field \<open>x\<close> of a record is named with the initial of its collection (\<open>u_id\<close>,
    \<open>s_id\<close>, \<open>c_units\<close>), since the collections share field names;
  \<^item> text is \<open>string\<close>; a character outside ASCII is its UTF-8 bytes;
  \<^item> a number is a binary64 number (\<open>number\<close> below). A number field of a stored
    record is what JSON keeps of it: a finite number, a rational, or \<open>null\<close>. The score
    that \<open>upsertResult\<close> is given and stores is a finite number;
  \<^item> \<open>uid()\<close>, \<open>now()\<close> and \<open>Date.now()\<close> read the host (clock and random numbers).
    The store carries the host's answers as a function of the number of reads made so
    far (\<open>env\<close> and \<open>tick\<close>), so every sequence of answers is a possible host;
  \<^item> \<open>currentUser\<close>, \<open>requireAuth\<close> and \<open>logout\<close> work on the session storage and
    the window only; they touch no collection and are left out.
\<close>

subsection \<open>Records of the schema\<close>

record user =
  u_id :: string
  u_username :: string
  u_password :: string
  u_role :: string
  u_name :: string
  u_email :: string
  u_phone :: string
  u_createdAt :: string

record student =
  s_id :: string
  s_userId :: string
  s_matric :: string
  s_department :: string
  s_level :: string
  s_studyCenter :: string

record lecturer =
  l_id :: string
  l_userId :: string
  l_staffId :: string
  l_department :: string

record course =
  c_id :: string
  c_code :: string
  c_title :: string
  c_units :: "rat option"
  c_lecturerId :: string

record enrollment =
  e_id :: string
  e_studentId :: string
  e_courseId :: string
  e_semester :: string
  e_date :: string

record result =
  r_id :: string
  r_studentId :: string
  r_courseId :: string
  r_score :: rat
  r_grade :: string
  r_semester :: string
  r_updatedAt :: string
  r_updatedBy :: string

record material =
  m_id :: string
  m_courseId :: string
  m_title :: string
  m_type :: string
  m_filename :: string
  m_data :: string
  m_size :: int
  m_uploadedBy :: string
  m_uploaderName :: string
  m_uploadedAt :: string

record audit_entry =
  a_id :: string
  a_ts :: string
  a_actorId :: string
  a_actorName :: string
  a_studentId :: string
  a_courseId :: string
  a_oldGrade :: string
  a_newGrade :: string
  a_reason :: string

record feedback_entry =
  f_id :: string
  f_userId :: string
  f_userName :: string
  f_role :: string
  f_easeOfUse :: int
  f_speed :: int
  f_satisfaction :: int
  f_comments :: string
  f_submittedAt :: string

text \<open>The store: one list for each key of the local storage, and the host.\<close>

record world =
  users :: "user list"
  students :: "student list"
  lecturers :: "lecturer list"
  courses :: "course list"
  enrollments :: "enrollment list"
  results :: "result list"
  materials :: "material list"
  audit_trail :: "audit_entry list"
  feedback :: "feedback_entry list"
  booted :: bool
  env :: "nat \<Rightarrow> string"
  tick :: nat

subsection \<open>Helpers\<close>

text \<open>One read of the host: the next answer, and the store with the read counted.\<close>

definition host_read :: "world \<Rightarrow> string \<times> world" where
  "host_read w = (env w (tick w), w\<lparr>tick := Suc (tick w)\<rparr>)"

text \<open>\<open>uid = () => 'id_' + Date.now() + '_' + Math.random()...\<close>: an opaque string of
  the host.\<close>

definition uid :: "world \<Rightarrow> string \<times> world" where
  "uid w = host_read w"

text \<open>\<open>now = () => new Date().toISOString()...\<close>: the time as \<open>YYYY-MM-DD HH:MM:SS\<close>.\<close>

definition now :: "world \<Rightarrow> string \<times> world" where
  "now w = host_read w"

text \<open>\<open>Date.now()\<close> read as text, for \<open>'STAFF-' + Date.now()\<close>.\<close>

definition Date_now :: "world \<Rightarrow> string \<times> world" where
  "Date_now w = host_read w"

text \<open>\<open>a || b\<close> on text: the empty string is the only falsy one.\<close>

definition or_else :: "string \<Rightarrow> string \<Rightarrow> string" where
  "or_else a b = (if a = [] then b else a)"

text \<open>\<open>Array.prototype.find\<close> is \<^const>\<open>List.find\<close>: the first element that satisfies
  the test, or none. \<open>Array.prototype.findIndex\<close> gives its position (\<open>-1\<close> is
  \<open>None\<close>). \<open>find\<close> returns the element itself, not a copy: an assignment to a field
  of the element found changes the array at that position.\<close>

fun findIndex :: "('a \<Rightarrow> bool) \<Rightarrow> 'a list \<Rightarrow> nat option" where
  "findIndex P [] = None"
| "findIndex P (x # xs) = (if P x then Some 0 else map_option Suc (findIndex P xs))"

text \<open>The errors thrown: \<open>new Error(message)\<close>.\<close>

datatype error = Error string

subsection \<open>Numbers\<close>

text \<open>
  A number of JavaScript is a binary64 floating point number: \<open>NaN\<close>, an infinity, or a
  finite number, which is a rational. The two zeros are one zero here: the module compares
  numbers, tests them for truth, adds, multiplies and prints them, and divides once by a
  number that is not zero, and none of these tells \<open>-0\<close> from \<open>+0\<close>.
\<close>

datatype number = NaN | PosInf | NegInf | Num rat

text \<open>\<open>a >= b\<close> and \<open>a < b\<close>. Every comparison with \<open>NaN\<close> is false.\<close>

fun js_ge :: "number \<Rightarrow> number \<Rightarrow> bool" where
  "js_ge NaN b = False"
| "js_ge a NaN = False"
| "js_ge PosInf b = True"
| "js_ge a NegInf = True"
| "js_ge NegInf b = False"
| "js_ge a PosInf = False"
| "js_ge (Num x) (Num y) = (x \<ge> y)"

fun js_lt :: "number \<Rightarrow> number \<Rightarrow> bool" where
  "js_lt NaN b = False"
| "js_lt a NaN = False"
| "js_lt a NegInf = False"
| "js_lt NegInf b = True"
| "js_lt PosInf b = False"
| "js_lt a PosInf = True"
| "js_lt (Num x) (Num y) = (x < y)"

text \<open>A number is falsy when it is \<open>NaN\<close> or zero.\<close>

definition truthy :: "number \<Rightarrow> bool" where
  "truthy a = (a \<noteq> NaN \<and> a \<noteq> Num 0)"

text \<open>The integer nearest to \<open>x\<close>, the even one of two.\<close>

definition round_even :: "rat \<Rightarrow> int" where
  "round_even x =
     (let f = \<lfloor>x\<rfloor>; d = x - of_int f in
      if d < 1 / 2 then f else if d > 1 / 2 then f + 1 else if even f then f else f + 1)"

text \<open>The number of binary digits of a positive integer.\<close>

function bitlen :: "int \<Rightarrow> int" where
  "bitlen n = (if n \<le> 0 then 0 else 1 + bitlen (n div 2))"
  by pat_completeness auto
termination
  by (relation "measure nat") auto

declare bitlen.simps [simp del]

text \<open>The binary exponent of a positive rational: \<open>2 powi e \<le> x < 2 powi (e + 1)\<close>.\<close>

definition exponent :: "rat \<Rightarrow> int" where
  "exponent x =
     (let (a, b) = quotient_of x;
          e = bitlen a - bitlen b
      in if 2 powi e \<le> x then e else e - 1)"

text \<open>
  Rounding to binary64, to the nearest and to the even significand of two: 53 bits of
  significand above the exponent \<open>-1022\<close>, and steps of \<open>2 powi (-1074)\<close> below it (the
  subnormal numbers). What rounds to \<open>2 ^ 1024\<close> or beyond, which is to a binary exponent
  of 1024 or more, is an infinity.
\<close>

definition binary64 :: "rat \<Rightarrow> rat" where
  "binary64 x =
     (if x = 0 then 0
      else let ulp = 2 powi (max (exponent \<bar>x\<bar>) (- 1022) - 52)
           in of_int (round_even (x / ulp)) * ulp)"

text \<open>The infinity of the sign of \<open>x\<close>, which is not zero.\<close>

definition infinity_of :: "rat \<Rightarrow> number" where
  "infinity_of x = (if 0 < x then PosInf else NegInf)"

definition to_double :: "rat \<Rightarrow> number" where
  "to_double x =
     (let r = binary64 x in
      if r = 0 \<or> exponent \<bar>r\<bar> < 1024 then Num r else infinity_of r)"

text \<open>\<open>a + b\<close>, \<open>a * b\<close> and \<open>a / b\<close> on numbers. The module divides by a number that is
  not zero only; a zero divisor is taken as \<open>+0\<close>.\<close>

fun js_add :: "number \<Rightarrow> number \<Rightarrow> number" where
  "js_add NaN b = NaN"
| "js_add a NaN = NaN"
| "js_add PosInf NegInf = NaN"
| "js_add NegInf PosInf = NaN"
| "js_add PosInf b = PosInf"
| "js_add NegInf b = NegInf"
| "js_add a PosInf = PosInf"
| "js_add a NegInf = NegInf"
| "js_add (Num x) (Num y) = to_double (x + y)"

fun js_mul :: "number \<Rightarrow> number \<Rightarrow> number" where
  "js_mul NaN b = NaN"
| "js_mul a NaN = NaN"
| "js_mul PosInf PosInf = PosInf"
| "js_mul PosInf NegInf = NegInf"
| "js_mul NegInf PosInf = NegInf"
| "js_mul NegInf NegInf = PosInf"
| "js_mul PosInf (Num y) = (if y = 0 then NaN else infinity_of y)"
| "js_mul NegInf (Num y) = (if y = 0 then NaN else infinity_of (- y))"
| "js_mul (Num x) PosInf = (if x = 0 then NaN else infinity_of x)"
| "js_mul (Num x) NegInf = (if x = 0 then NaN else infinity_of (- x))"
| "js_mul (Num x) (Num y) = to_double (x * y)"

fun js_div :: "number \<Rightarrow> number \<Rightarrow> number" where
  "js_div NaN b = NaN"
| "js_div a NaN = NaN"
| "js_div PosInf PosInf = NaN"
| "js_div PosInf NegInf = NaN"
| "js_div NegInf PosInf = NaN"
| "js_div NegInf NegInf = NaN"
| "js_div PosInf (Num y) = (if 0 \<le> y then PosInf else NegInf)"
| "js_div NegInf (Num y) = (if 0 \<le> y then NegInf else PosInf)"
| "js_div (Num x) PosInf = Num 0"
| "js_div (Num x) NegInf = Num 0"
| "js_div (Num x) (Num y) =
     (if y = 0 then (if x = 0 then NaN else infinity_of x) else to_double (x / y))"

text \<open>
  A collection is stored as JSON, and \<open>JSON.stringify\<close> writes \<open>null\<close> for a number that is
  not finite. So a number field of a stored record is a finite number or \<open>null\<close>, here
  \<open>None\<close>. Where a \<open>null\<close> is added or multiplied, it is the number \<open>0\<close>.
\<close>

definition to_json :: "number \<Rightarrow> rat option" where
  "to_json a = (case a of Num x \<Rightarrow> Some x | _ \<Rightarrow> None)"

definition to_number :: "rat option \<Rightarrow> number" where
  "to_number v = (case v of Some x \<Rightarrow> Num x | None \<Rightarrow> Num 0)"

subsection \<open>Grade helper\<close>

text \<open>\<open>scoreToGrade = s => s>=70?'A':s>=60?'B':s>=50?'C':s>=40?'D':'F'\<close>\<close>

definition scoreToGrade :: "number \<Rightarrow> string" where
  "scoreToGrade s =
     (if js_ge s (Num 70) then ''A'' else if js_ge s (Num 60) then ''B''
      else if js_ge s (Num 50) then ''C'' else if js_ge s (Num 40) then ''D'' else ''F'')"

subsection \<open>Seeding on the first run\<close>

text \<open>The local storage before the first run: no key is set, and \<open>get\<close> reads every
  collection as empty.\<close>

definition fresh :: "(nat \<Rightarrow> string) \<Rightarrow> world" where
  "fresh h =
     \<lparr>users = [], students = [], lecturers = [], courses = [], enrollments = [],
      results = [], materials = [], audit_trail = [], feedback = [], booted = False,
      env = h, tick = 0\<rparr>"

definition boot :: "world \<Rightarrow> world" where
  "boot w =
     (if \<not> booted w then
        let (t, w1) = now w in
        w1\<lparr>users :=
             [\<lparr>u_id = ''admin_001'', u_username = ''admin'', u_password = ''admin123'',
               u_role = ''admin'', u_name = ''Portal Administrator'',
               u_email = ''admin@noun.edu.ng'', u_phone = [], u_createdAt = t\<rparr>],
           students := [], lecturers := [], courses := [], enrollments := [],
           results := [], materials := [], audit_trail := [], feedback := [],
           booted := True\<rparr>
      else w)"

subsection \<open>Users, students, lecturers\<close>

definition login :: "string \<Rightarrow> string \<Rightarrow> string \<Rightarrow> world \<Rightarrow> user option" where
  "login username password role w =
     find (\<lambda>u. u_username u = username \<and> u_password u = password \<and> u_role u = role)
       (users w)"

definition getStudentByUserId :: "string \<Rightarrow> world \<Rightarrow> student option" where
  "getStudentByUserId userId w = find (\<lambda>s. s_userId s = userId) (students w)"

definition getLecturerByUserId :: "string \<Rightarrow> world \<Rightarrow> lecturer option" where
  "getLecturerByUserId userId w = find (\<lambda>l. l_userId l = userId) (lecturers w)"

definition getUserById :: "string \<Rightarrow> world \<Rightarrow> user option" where
  "getUserById i w = find (\<lambda>u. u_id u = i) (users w)"

definition getStudentById :: "string \<Rightarrow> world \<Rightarrow> student option" where
  "getStudentById i w = find (\<lambda>s. s_id s = i) (students w)"

record student_fields =
  sf_name :: string
  sf_username :: string
  sf_password :: string
  sf_email :: string
  sf_phone :: string
  sf_matric :: string
  sf_department :: string
  sf_level :: string
  sf_studyCenter :: string

definition addStudent :: "student_fields \<Rightarrow> world \<Rightarrow> (error + string) \<times> world" where
  "addStudent f w =
     (let users0 = users w in
      if find (\<lambda>u. u_username u = sf_username f) users0 \<noteq> None
      then (Inl (Error ''Username already exists.''), w)
      else if find (\<lambda>s. s_matric s = sf_matric f) (students w) \<noteq> None
      then (Inl (Error ''Matric number already exists.''), w)
      else
        let (userId, w1) = uid w;
            (t, w2) = now w1;
            w3 = w2\<lparr>users := users0 @
                   [\<lparr>u_id = userId, u_username = sf_username f, u_password = sf_password f,
                     u_role = ''student'', u_name = sf_name f,
                     u_email = or_else (sf_email f) (sf_username f @ ''@noun.edu.ng''),
                     u_phone = or_else (sf_phone f) [], u_createdAt = t\<rparr>]\<rparr>;
            students0 = students w3;
            (studentId, w4) = uid w3;
            w5 = w4\<lparr>students := students0 @
                   [\<lparr>s_id = studentId, s_userId = userId, s_matric = sf_matric f,
                     s_department = sf_department f, s_level = sf_level f,
                     s_studyCenter = or_else (sf_studyCenter f) ''Main Campus''\<rparr>]\<rparr>
        in (Inr studentId, w5))"

record lecturer_fields =
  lf_name :: string
  lf_username :: string
  lf_password :: string
  lf_email :: string
  lf_phone :: string
  lf_staffId :: string
  lf_department :: string

definition addLecturer :: "lecturer_fields \<Rightarrow> world \<Rightarrow> (error + string) \<times> world" where
  "addLecturer f w =
     (let users0 = users w in
      if find (\<lambda>u. u_username u = lf_username f) users0 \<noteq> None
      then (Inl (Error ''Username already exists.''), w)
      else
        let (userId, w1) = uid w;
            (t, w2) = now w1;
            w3 = w2\<lparr>users := users0 @
                   [\<lparr>u_id = userId, u_username = lf_username f, u_password = lf_password f,
                     u_role = ''lecturer'', u_name = lf_name f,
                     u_email = or_else (lf_email f) (lf_username f @ ''@noun.edu.ng''),
                     u_phone = or_else (lf_phone f) [], u_createdAt = t\<rparr>]\<rparr>;
            lecturers0 = lecturers w3;
            (lecturerId, w4) = uid w3;
            (staffId, w5) =
              (if lf_staffId f \<noteq> [] then (lf_staffId f, w4)
               else let (ms, w') = Date_now w4 in (''STAFF-'' @ ms, w'));
            w6 = w5\<lparr>lecturers := lecturers0 @
                   [\<lparr>l_id = lecturerId, l_userId = userId, l_staffId = staffId,
                     l_department = lf_department f\<rparr>]\<rparr>
        in (Inr lecturerId, w6))"

subsection \<open>Courses\<close>

definition getCourseById :: "string \<Rightarrow> world \<Rightarrow> course option" where
  "getCourseById i w = find (\<lambda>c. c_id c = i) (courses w)"

definition getCourseByCode :: "string \<Rightarrow> world \<Rightarrow> course option" where
  "getCourseByCode code w = find (\<lambda>c. c_code c = code) (courses w)"

text \<open>
  \<open>parseInt(units)\<close> with no radix, after ECMA-262: skip leading white space, take an
  optional sign, take radix 16 after a prefix \<open>0x\<close> or \<open>0X\<close> and radix 10 otherwise, and
  read the longest prefix of digits of that radix. With no digit the result is \<open>NaN\<close>;
  otherwise it is the number nearest to the integer read.

  The white space of the standard, in UTF-8: the ASCII characters space, tab, line feed,
  vertical tab, form feed and carriage return, and U+00A0, U+1680, U+2000 to U+200A,
  U+2028, U+2029, U+202F, U+205F, U+3000 and U+FEFF.
\<close>

definition is_space :: "char \<Rightarrow> bool" where
  "is_space c = (c \<in> set [CHR '' '', CHR 0x09, CHR 0x0A, CHR 0x0B, CHR 0x0C, CHR 0x0D])"

definition wide_spaces :: "string list" where
  "wide_spaces =
     [[CHR 0xC2, CHR 0xA0], [CHR 0xE1, CHR 0x9A, CHR 0x80],
      [CHR 0xE2, CHR 0x80, CHR 0x80], [CHR 0xE2, CHR 0x80, CHR 0x81],
      [CHR 0xE2, CHR 0x80, CHR 0x82], [CHR 0xE2, CHR 0x80, CHR 0x83],
      [CHR 0xE2, CHR 0x80, CHR 0x84], [CHR 0xE2, CHR 0x80, CHR 0x85],
      [CHR 0xE2, CHR 0x80, CHR 0x86], [CHR 0xE2, CHR 0x80, CHR 0x87],
      [CHR 0xE2, CHR 0x80, CHR 0x88], [CHR 0xE2, CHR 0x80, CHR 0x89],
      [CHR 0xE2, CHR 0x80, CHR 0x8A], [CHR 0xE2, CHR 0x80, CHR 0xA8],
      [CHR 0xE2, CHR 0x80, CHR 0xA9], [CHR 0xE2, CHR 0x80, CHR 0xAF],
      [CHR 0xE2, CHR 0x81, CHR 0x9F], [CHR 0xE3, CHR 0x80, CHR 0x80],
      [CHR 0xEF, CHR 0xBB, CHR 0xBF]]"

fun trim_start :: "string \<Rightarrow> string" where
  "trim_start [] = []"
| "trim_start (c # cs) =
     (if is_space c then trim_start cs
      else if take 2 (c # cs) \<in> set wide_spaces then trim_start (drop 1 cs)
      else if take 3 (c # cs) \<in> set wide_spaces then trim_start (drop 2 cs)
      else c # cs)"

definition digit_value :: "char \<Rightarrow> nat option" where
  "digit_value c =
     (let n = (of_char c :: nat) in
      if 48 \<le> n \<and> n \<le> 57 then Some (n - 48)
      else if 97 \<le> n \<and> n \<le> 122 then Some (n - 87)
      else if 65 \<le> n \<and> n \<le> 90 then Some (n - 55)
      else None)"

definition is_digit :: "nat \<Rightarrow> char \<Rightarrow> bool" where
  "is_digit R c = (case digit_value c of None \<Rightarrow> False | Some d \<Rightarrow> d < R)"

definition digits_value :: "nat \<Rightarrow> string \<Rightarrow> int" where
  "digits_value R z = foldl (\<lambda>acc c. acc * int R + int (the (digit_value c))) 0 z"

definition parseInt :: "string \<Rightarrow> number" where
  "parseInt inputString =
     (let s1 = trim_start inputString;
          negative = (take 1 s1 = ''-'');
          s2 = (if take 1 s1 = ''+'' \<or> take 1 s1 = ''-'' then drop 1 s1 else s1);
          hex = (take 2 s2 = ''0x'' \<or> take 2 s2 = ''0X'');
          R = (if hex then 16 else 10);
          s3 = (if hex then drop 2 s2 else s2);
          z = takeWhile (is_digit R) s3
      in if z = [] then NaN
         else to_double (of_int ((if negative then - 1 else 1) * digits_value R z)))"

record course_fields =
  cf_code :: string
  cf_title :: string
  cf_units :: string
  cf_lecturerId :: string

text \<open>\<open>parseInt(units)||3\<close>: \<open>NaN\<close> and \<open>0\<close> are the falsy numbers.\<close>

definition units_or_3 :: "number \<Rightarrow> number" where
  "units_or_3 p = (if truthy p then p else Num 3)"

text \<open>The course is written as JSON: the units read back are \<open>to_json\<close> of the units
  pushed.\<close>

definition addCourse :: "course_fields \<Rightarrow> world \<Rightarrow> (error + string) \<times> world" where
  "addCourse f w =
     (if find (\<lambda>c. c_code c = cf_code f) (courses w) \<noteq> None
      then (Inl (Error ''Course code already exists.''), w)
      else
        let courses0 = courses w;
            (i, w1) = uid w;
            w2 = w1\<lparr>courses := courses0 @
                   [\<lparr>c_id = i, c_code = cf_code f, c_title = cf_title f,
                     c_units = to_json (units_or_3 (parseInt (cf_units f))),
                     c_lecturerId = or_else (cf_lecturerId f) []\<rparr>]\<rparr>
        in (Inr i, w2))"

definition assignLecturerToCourse :: "string \<Rightarrow> string \<Rightarrow> world \<Rightarrow> world" where
  "assignLecturerToCourse courseId lecturerId w =
     (let courses0 = courses w in
      case findIndex (\<lambda>c. c_id c = courseId) courses0 of
        Some i \<Rightarrow> w\<lparr>courses := courses0[i := (courses0 ! i)\<lparr>c_lecturerId := lecturerId\<rparr>]\<rparr>
      | None \<Rightarrow> w)"

definition getCoursesForLecturer :: "string \<Rightarrow> world \<Rightarrow> course list" where
  "getCoursesForLecturer lecturerId w = filter (\<lambda>c. c_lecturerId c = lecturerId) (courses w)"

subsection \<open>Enrollments\<close>

definition getEnrollmentsForStudent :: "string \<Rightarrow> world \<Rightarrow> enrollment list" where
  "getEnrollmentsForStudent studentId w =
     filter (\<lambda>e. e_studentId e = studentId) (enrollments w)"

definition getEnrolledCourses :: "string \<Rightarrow> world \<Rightarrow> course list" where
  "getEnrolledCourses studentId w =
     List.map_filter (\<lambda>e. getCourseById (e_courseId e) w) (getEnrollmentsForStudent studentId w)"

text \<open>\<open>enroll(studentId, courseId, semester='2024/2025')\<close>: the semester may be left
  out (\<open>None\<close>). The date is \<open>now().split(' ')[0]\<close>.\<close>

definition enroll :: "string \<Rightarrow> string \<Rightarrow> string option \<Rightarrow> world \<Rightarrow> world" where
  "enroll studentId courseId semester w =
     (let enr = enrollments w in
      if find (\<lambda>e. e_studentId e = studentId \<and> e_courseId e = courseId) enr \<noteq> None then w
      else
        let (i, w1) = uid w;
            (t, w2) = now w1
        in w2\<lparr>enrollments := enr @
               [\<lparr>e_id = i, e_studentId = studentId, e_courseId = courseId,
                 e_semester = (case semester of None \<Rightarrow> ''2024/2025'' | Some s \<Rightarrow> s),
                 e_date = takeWhile (\<lambda>c. c \<noteq> CHR '' '') t\<rparr>]\<rparr>)"

subsection \<open>Audit trail\<close>

record audit_fields =
  af_actorId :: string
  af_actorName :: string
  af_studentId :: string
  af_courseId :: string
  af_oldGrade :: string
  af_newGrade :: string
  af_reason :: string

definition addAuditEntry :: "audit_fields \<Rightarrow> world \<Rightarrow> world" where
  "addAuditEntry f w =
     (let trail = audit_trail w;
          (i, w1) = uid w;
          (t, w2) = now w1
      in w2\<lparr>audit_trail := trail @
             [\<lparr>a_id = i, a_ts = t, a_actorId = af_actorId f, a_actorName = af_actorName f,
               a_studentId = af_studentId f, a_courseId = af_courseId f,
               a_oldGrade = af_oldGrade f, a_newGrade = af_newGrade f,
               a_reason = af_reason f\<rparr>]\<rparr>)"

subsection \<open>Results\<close>

definition getResultsForStudent :: "string \<Rightarrow> world \<Rightarrow> result list" where
  "getResultsForStudent studentId w = filter (\<lambda>r. r_studentId r = studentId) (results w)"


text \<open>The sentinel for "no grade before": an em dash (U+2014), here its UTF-8 bytes.\<close>

definition em_dash :: string where
  "em_dash = [CHR 0xE2, CHR 0x80, CHR 0x94]"

definition upsertResult :: "string \<Rightarrow> string \<Rightarrow> rat \<Rightarrow> user \<Rightarrow> world \<Rightarrow> world" where
  "upsertResult studentId courseId score actorUser w =
     (let results0 = results w;
          existing = findIndex (\<lambda>r. r_studentId r = studentId \<and> r_courseId r = courseId) results0;
          newGrade = scoreToGrade (Num score);
          (now0, w1) = now w
      in case existing of
           Some i \<Rightarrow>
             let oldGrade = r_grade (results0 ! i);
                 w2 = w1\<lparr>results := results0[i := (results0 ! i)
                        \<lparr>r_score := score, r_grade := newGrade, r_updatedAt := now0,
                         r_updatedBy := u_name actorUser\<rparr>]\<rparr>
             in addAuditEntry
                  \<lparr>af_actorId = u_id actorUser, af_actorName = u_name actorUser,
                   af_studentId = studentId, af_courseId = courseId, af_oldGrade = oldGrade,
                   af_newGrade = newGrade, af_reason = ''Grade updated''\<rparr> w2
         | None \<Rightarrow>
             let (i, w2) = uid w1;
                 w3 = w2\<lparr>results := results0 @
                        [\<lparr>r_id = i, r_studentId = studentId, r_courseId = courseId,
                          r_score = score, r_grade = newGrade, r_semester = ''2024/2025'',
                          r_updatedAt = now0, r_updatedBy = u_name actorUser\<rparr>]\<rparr>;
                 w4 = enroll studentId courseId None w3
             in addAuditEntry
                  \<lparr>af_actorId = u_id actorUser, af_actorName = u_name actorUser,
                   af_studentId = studentId, af_courseId = courseId, af_oldGrade = em_dash,
                   af_newGrade = newGrade, af_reason = ''Result entered''\<rparr> w4)"

subsection \<open>Numbers in print\<close>

text \<open>The decimal digits of an integer that is not negative.\<close>

definition digit_char :: "int \<Rightarrow> char" where
  "digit_char d = ''0123456789'' ! nat d"

function digits :: "int \<Rightarrow> string" where
  "digits n =
     (if n < 10 then [digit_char n] else digits (n div 10) @ [digit_char (n mod 10)])"
  by pat_completeness auto
termination
  by (relation "measure nat") auto

declare digits.simps [simp del]

text \<open>
  \<open>Number::toString\<close> of ECMA-262 for a finite number \<open>x \<ge> 10 ^ 21\<close>, which is an
  integer: the digits are those of the shortest decimal number that rounds to \<open>x\<close>, the
  nearest to \<open>x\<close> of two (the one of even last digit when both are as near); they are
  printed with one digit before the point and the decimal exponent behind \<open>e+\<close>. A
  number of \<open>k\<close> digits that rounds to \<open>x\<close> is \<open>x\<close> cut after \<open>k\<close> digits, or the next
  number of \<open>k\<close> digits above; 17 digits always suffice.
\<close>

definition shortest_at :: "rat \<Rightarrow> nat \<Rightarrow> int option" where
  "shortest_at x k =
     (let xi = \<lfloor>x\<rfloor>;
          p = 10 ^ (length (digits xi) - k);
          lo = (xi div p) * p;
          hi = lo + p;
          lo_ok = (to_double (of_int lo) = Num x);
          hi_ok = (to_double (of_int hi) = Num x)
      in if lo_ok \<and> hi_ok
         then (if x - of_int lo < of_int hi - x then Some lo
               else if of_int hi - x < x - of_int lo then Some hi
               else if even (xi div p) then Some lo else Some hi)
         else if lo_ok then Some lo
         else if hi_ok then Some hi
         else None)"

definition shortest :: "rat \<Rightarrow> int" where
  "shortest x =
     (case List.map_filter (shortest_at x) [1..<18] of v # _ \<Rightarrow> v | [] \<Rightarrow> \<lfloor>x\<rfloor>)"

definition number_toString :: "rat \<Rightarrow> string" where
  "number_toString x =
     (let ds = digits (shortest x);
          e = int (length ds) - 1
      in case rev (dropWhile (\<lambda>c. c = CHR ''0'') (rev ds)) of
           [] \<Rightarrow> []
         | [d] \<Rightarrow> [d] @ ''e+'' @ digits e
         | d # rest \<Rightarrow> [d] @ ''.'' @ rest @ ''e+'' @ digits e)"

text \<open>
  \<open>Number.prototype.toFixed(f)\<close> after ECMA-262, for \<open>f\<close> up to 100 (the module calls it
  with 2). \<open>NaN\<close> and the infinities are printed by name. A negative \<open>x\<close> is printed as
  \<open>-x\<close> behind a minus sign. From \<open>10 ^ 21\<close> on the number is printed by
  \<open>Number::toString\<close>. Below, \<open>n\<close> is the integer for which \<open>n / 10 ^ f - x\<close> is closest to
  zero, the larger of two; its digits are padded with zeros to \<open>f + 1\<close> places and the
  point is put before the last \<open>f\<close>.
\<close>

definition toFixed :: "nat \<Rightarrow> number \<Rightarrow> string" where
  "toFixed f v =
     (case v of
        NaN \<Rightarrow> ''NaN''
      | PosInf \<Rightarrow> ''Infinity''
      | NegInf \<Rightarrow> ''-Infinity''
      | Num x0 \<Rightarrow>
          let s = (if x0 < 0 then ''-'' else []);
              x = (if x0 < 0 then - x0 else x0)
          in if 10 ^ 21 \<le> x then s @ number_toString x
             else
               let n = \<lfloor>x * 10 ^ f + 1 / 2\<rfloor>;
                   m = (if n = 0 then ''0'' else digits n);
                   m1 = (if f \<noteq> 0
                         then let k = length m;
                                  m2 = (if k \<le> f then replicate (f + 1 - k) CHR ''0'' @ m
                                        else m);
                                  k2 = (if k \<le> f then f + 1 else k)
                              in take (k2 - f) m2 @ ''.'' @ drop (k2 - f) m2
                         else m)
               in s @ m1)"

subsection \<open>The GPA\<close>

text \<open>
  \<open>gp = {A:5,B:4,C:3,D:2,F:0}\<close> and \<open>gp[r.grade]\<close>: the value of an own key, or what the
  object inherits from \<open>Object.prototype\<close> under that name (a function or an object), or
  \<open>undefined\<close>.
\<close>

datatype property = Undefined | Own int | Inherited

definition Object_prototype_keys :: "string list" where
  "Object_prototype_keys =
     [''constructor'', ''hasOwnProperty'', ''isPrototypeOf'', ''propertyIsEnumerable'',
      ''toLocaleString'', ''toString'', ''valueOf'', ''__proto__'', ''__defineGetter__'',
      ''__defineSetter__'', ''__lookupGetter__'', ''__lookupSetter__'']"

definition gp :: "string \<Rightarrow> property" where
  "gp k =
     (if k = ''A'' then Own 5 else if k = ''B'' then Own 4 else if k = ''C'' then Own 3
      else if k = ''D'' then Own 2 else if k = ''F'' then Own 0
      else if k \<in> set Object_prototype_keys then Inherited else Undefined)"

text \<open>\<open>gp[r.grade]||0\<close> as a factor of a product: \<open>undefined\<close> and \<open>0\<close> are falsy and give
  \<open>0\<close>; an inherited function or object is truthy and is \<open>NaN\<close> as a number.\<close>

definition gp_or_0 :: "string \<Rightarrow> number" where
  "gp_or_0 k =
     (case gp k of Undefined \<Rightarrow> Num 0 | Own n \<Rightarrow> (if n = 0 then Num 0 else Num (of_int n))
      | Inherited \<Rightarrow> NaN)"

text \<open>The body of the \<open>forEach\<close>, on the pair of accumulators \<open>(pts, units)\<close>. The units
  \<open>u\<close> are those of the stored course, which may be \<open>null\<close>, or 3.\<close>

definition gpa_step :: "world \<Rightarrow> result \<Rightarrow> number \<times> number \<Rightarrow> number \<times> number" where
  "gpa_step w r acc =
     (let (pts, units) = acc;
          c = getCourseById (r_courseId r) w;
          u = to_number (case c of Some c' \<Rightarrow> c_units c' | None \<Rightarrow> Some 3)
      in (js_add pts (js_mul (gp_or_0 (r_grade r)) u), js_add units u))"

definition calcGPA :: "string \<Rightarrow> world \<Rightarrow> string" where
  "calcGPA studentId w =
     (let res = getResultsForStudent studentId w in
      if length res = 0 then ''0.00''
      else
        let (pts, units) = fold (gpa_step w) res (Num 0, Num 0)
        in if truthy units then toFixed 2 (js_div pts units) else ''0.00'')"

subsection \<open>The weighted average\<close>

text \<open>
  The grade points of a letter, the units that a result counts with as a finite number (a
  stored \<open>null\<close> is \<open>0\<close>, and a result whose course is not in the store counts 3), and
  the weighted average of the specification: the sum of grade points times units over the
  sum of units, as exact numbers.
\<close>

definition spec_grade_point :: "string \<Rightarrow> int" where
  "spec_grade_point g =
     (if g = ''A'' then 5 else if g = ''B'' then 4 else if g = ''C'' then 3
      else if g = ''D'' then 2 else 0)"

definition course_units :: "world \<Rightarrow> result \<Rightarrow> rat" where
  "course_units w r =
     (case find (\<lambda>c. c_id c = r_courseId r) (courses w) of
        Some c \<Rightarrow> (case c_units c of Some u \<Rightarrow> u | None \<Rightarrow> 0)
      | None \<Rightarrow> 3)"

definition spec_total_points :: "world \<Rightarrow> result list \<Rightarrow> rat" where
  "spec_total_points w res =
     (\<Sum>r\<leftarrow>res. of_int (spec_grade_point (r_grade r)) * course_units w r)"

definition spec_total_units :: "world \<Rightarrow> result list \<Rightarrow> rat" where
  "spec_total_units w res = (\<Sum>r\<leftarrow>res. course_units w r)"

definition spec_weighted_average :: "world \<Rightarrow> result list \<Rightarrow> rat" where
  "spec_weighted_average w res = spec_total_points w res / spec_total_units w res"

text \<open>\<open>calcGPA\<close> as the specification words it: \<open>"0.00"\<close> without results or units, and
  else the weighted average, as the nearest number, with two decimals.\<close>

abbreviation results_of :: "string \<Rightarrow> world \<Rightarrow> result list" where
  "results_of studentId w \<equiv> filter (\<lambda>r. r_studentId r = studentId) (results w)"

definition spec_calcGPA :: "string \<Rightarrow> world \<Rightarrow> string" where
  "spec_calcGPA studentId w =
     (let res = results_of studentId w in
      if res = [] \<or> spec_total_units w res = 0 then ''0.00''
      else toFixed 2 (to_double (spec_weighted_average w res)))"

subsection \<open>Materials\<close>

definition getMaterialsForCourse :: "string \<Rightarrow> world \<Rightarrow> material list" where
  "getMaterialsForCourse courseId w = filter (\<lambda>m. m_courseId m = courseId) (materials w)"

definition getMaterialsForStudent :: "string \<Rightarrow> world \<Rightarrow> material list" where
  "getMaterialsForStudent studentId w =
     (let enrolled = map e_courseId (getEnrollmentsForStudent studentId w)
      in filter (\<lambda>m. m_courseId m \<in> set enrolled) (materials w))"

record material_fields =
  mf_courseId :: string
  mf_title :: string
  mf_type :: string
  mf_filename :: string
  mf_data :: string
  mf_size :: int
  mf_uploadedBy :: user

definition uploadMaterial :: "material_fields \<Rightarrow> world \<Rightarrow> world" where
  "uploadMaterial f w =
     (let mats = materials w;
          (i, w1) = uid w;
          (t, w2) = now w1
      in w2\<lparr>materials := mats @
             [\<lparr>m_id = i, m_courseId = mf_courseId f, m_title = mf_title f, m_type = mf_type f,
               m_filename = mf_filename f, m_data = mf_data f, m_size = mf_size f,
               m_uploadedBy = u_id (mf_uploadedBy f), m_uploaderName = u_name (mf_uploadedBy f),
               m_uploadedAt = t\<rparr>]\<rparr>)"

definition deleteMaterial :: "string \<Rightarrow> world \<Rightarrow> world" where
  "deleteMaterial i w = w\<lparr>materials := filter (\<lambda>m. m_id m \<noteq> i) (materials w)\<rparr>"

subsection \<open>Feedback\<close>

record feedback_fields =
  ff_userId :: string
  ff_userName :: string
  ff_role :: string
  ff_easeOfUse :: int
  ff_speed :: int
  ff_satisfaction :: int
  ff_comments :: string

definition submitFeedback :: "feedback_fields \<Rightarrow> world \<Rightarrow> world" where
  "submitFeedback f w =
     (let fb = feedback w;
          existing = findIndex (\<lambda>e. f_userId e = ff_userId f) fb;
          (i, w1) = uid w;
          (t, w2) = now w1;
          entry = \<lparr>f_id = i, f_userId = ff_userId f, f_userName = ff_userName f,
                   f_role = ff_role f, f_easeOfUse = ff_easeOfUse f, f_speed = ff_speed f,
                   f_satisfaction = ff_satisfaction f, f_comments = ff_comments f,
                   f_submittedAt = t\<rparr>
      in case existing of
           Some k \<Rightarrow> w2\<lparr>feedback := fb[k := entry]\<rparr>
         | None \<Rightarrow> w2\<lparr>feedback := fb @ [entry]\<rparr>)"

definition getUserFeedback :: "string \<Rightarrow> world \<Rightarrow> feedback_entry option" where
  "getUserFeedback userId w = find (\<lambda>e. f_userId e = userId) (feedback w)"

subsection \<open>Profiles\<close>

text \<open>
  The profiles are built by object spread: \<open>{ ...s, ...u, studentId }\<close> copies the fields
  of \<open>s\<close>, then the fields of \<open>u\<close> over them, then sets \<open>studentId\<close>. An object is a map
  from field names to values, and spreading \<open>b\<close> over \<open>a\<close> is \<open>a ++ b\<close>. Spreading
  \<open>undefined\<close> copies nothing.
\<close>

type_synonym object = "string \<rightharpoonup> string"

definition user_object :: "user \<Rightarrow> object" where
  "user_object u =
     [''id'' \<mapsto> u_id u, ''username'' \<mapsto> u_username u, ''password'' \<mapsto> u_password u,
      ''role'' \<mapsto> u_role u, ''name'' \<mapsto> u_name u, ''email'' \<mapsto> u_email u,
      ''phone'' \<mapsto> u_phone u, ''createdAt'' \<mapsto> u_createdAt u]"

definition student_object :: "student \<Rightarrow> object" where
  "student_object s =
     [''id'' \<mapsto> s_id s, ''userId'' \<mapsto> s_userId s, ''matric'' \<mapsto> s_matric s,
      ''department'' \<mapsto> s_department s, ''level'' \<mapsto> s_level s,
      ''studyCenter'' \<mapsto> s_studyCenter s]"

definition lecturer_object :: "lecturer \<Rightarrow> object" where
  "lecturer_object l =
     [''id'' \<mapsto> l_id l, ''userId'' \<mapsto> l_userId l, ''staffId'' \<mapsto> l_staffId l,
      ''department'' \<mapsto> l_department l]"

definition spread :: "user option \<Rightarrow> object" where
  "spread u = (case u of None \<Rightarrow> Map.empty | Some u' \<Rightarrow> user_object u')"

definition studentFullProfile :: "string \<Rightarrow> world \<Rightarrow> object option" where
  "studentFullProfile studentId w =
     (case find (\<lambda>st. s_id st = studentId) (students w) of
        None \<Rightarrow> None
      | Some s \<Rightarrow>
          let u = getUserById (s_userId s) w
          in Some ((student_object s ++ spread u)(''studentId'' \<mapsto> studentId)))"

definition lecturerFullProfile :: "string \<Rightarrow> world \<Rightarrow> object option" where
  "lecturerFullProfile lecturerId w =
     (case find (\<lambda>lt. l_id lt = lecturerId) (lecturers w) of
        None \<Rightarrow> None
      | Some l \<Rightarrow>
          let u = getUserById (l_userId l) w
          in Some ((lecturer_object l ++ spread u)(''lecturerId'' \<mapsto> lecturerId)))"

definition allStudentsWithProfiles :: "world \<Rightarrow> object list" where
  "allStudentsWithProfiles w =
     map (\<lambda>s. let u = getUserById (s_userId s) w
              in (spread u ++ student_object s)(''studentId'' \<mapsto> s_id s)) (students w)"

definition allLecturersWithProfiles :: "world \<Rightarrow> object list" where
  "allLecturersWithProfiles w =
     map (\<lambda>l. let u = getUserById (l_userId l) w
              in (spread u ++ lecturer_object l)(''lecturerId'' \<mapsto> l_id l)) (lecturers w)"

subsection \<open>The stores the module can build\<close>

text \<open>The calls that write, and the stores reached from the first run by such calls.\<close>

datatype command =
    AddStudent student_fields
  | AddLecturer lecturer_fields
  | AddCourse course_fields
  | AssignLecturerToCourse string string
  | Enroll string string "string option"
  | UpsertResult string string rat user
  | UploadMaterial material_fields
  | DeleteMaterial string
  | AddAuditEntry audit_fields
  | SubmitFeedback feedback_fields
  | Boot

fun exec :: "command \<Rightarrow> world \<Rightarrow> world" where
  "exec (AddStudent f) w = snd (addStudent f w)"
| "exec (AddLecturer f) w = snd (addLecturer f w)"
| "exec (AddCourse f) w = snd (addCourse f w)"
| "exec (AssignLecturerToCourse c l) w = assignLecturerToCourse c l w"
| "exec (Enroll s c sem) w = enroll s c sem w"
| "exec (UpsertResult s c score actor) w = upsertResult s c score actor w"
| "exec (UploadMaterial f) w = uploadMaterial f w"
| "exec (DeleteMaterial i) w = deleteMaterial i w"
| "exec (AddAuditEntry f) w = addAuditEntry f w"
| "exec (SubmitFeedback f) w = submitFeedback f w"
| "exec Boot w = boot w"

inductive reachable :: "world \<Rightarrow> bool" where
  start: "reachable (boot (fresh h))"
| step: "reachable w \<Longrightarrow> reachable (exec c w)"

subsection \<open>Invariants of the store\<close>

text \<open>The keys that the schema keeps unique, and the facts that hold of every store the
  module builds: no pair is enrolled twice or graded twice, no user has two feedback
  records, every grade is the grade of its score, and the user of every student and
  lecturer exists.\<close>

definition enr_key :: "enrollment \<Rightarrow> string \<times> string" where
  "enr_key e = (e_studentId e, e_courseId e)"

definition res_key :: "result \<Rightarrow> string \<times> string" where
  "res_key r = (r_studentId r, r_courseId r)"

definition consistent :: "world \<Rightarrow> bool" where
  "consistent w \<longleftrightarrow>
     distinct (map enr_key (enrollments w)) \<and>
     distinct (map res_key (results w)) \<and>
     distinct (map f_userId (feedback w)) \<and>
     list_all (\<lambda>r. r_grade r = scoreToGrade (Num (r_score r))) (results w) \<and>
     list_all (\<lambda>s. s_userId s \<in> set (map u_id (users w))) (students w) \<and>
     list_all (\<lambda>l. l_userId l \<in> set (map u_id (users w))) (lecturers w)"

subsection \<open>Example data\<close>

text \<open>A host whose \<open>n\<close>-th answer is \<open>h\<close> followed by \<open>n\<close> in decimal, the store of the
  first run on that host, and an actor.\<close>

definition host0 :: "nat \<Rightarrow> string" where
  "host0 n = ''h'' @ digits (int n)"

definition world0 :: world where
  "world0 = boot (fresh host0)"

definition actor0 :: user where
  "actor0 =
     \<lparr>u_id = ''admin_001'', u_username = ''admin'', u_password = ''admin123'',
      u_role = ''admin'', u_name = ''Portal Administrator'',
      u_email = ''admin@noun.edu.ng'', u_phone = [], u_createdAt = ''h0''\<rparr>"



text \<open>The fields of a new student.\<close>

definition fields1 :: student_fields where
  "fields1 =
     \<lparr>sf_name = ''Ada'', sf_username = ''s1'', sf_password = ''pw'', sf_email = [],
      sf_phone = [], sf_matric = ''M1'', sf_department = ''CS'', sf_level = ''100'',
      sf_studyCenter = []\<rparr>"

text \<open>Two submissions of one user.\<close>

definition feedback1 :: feedback_fields where
  "feedback1 =
     \<lparr>ff_userId = ''u1'', ff_userName = ''Ada'', ff_role = ''student'', ff_easeOfUse = 3,
      ff_speed = 3, ff_satisfaction = 3, ff_comments = ''ok''\<rparr>"

definition feedback2 :: feedback_fields where
  "feedback2 =
     \<lparr>ff_userId = ''u1'', ff_userName = ''Ada'', ff_role = ''student'', ff_easeOfUse = 5,
      ff_speed = 4, ff_satisfaction = 4, ff_comments = ''better''\<rparr>"

text \<open>The fields of a new lecturer, and the stores after the student and after the
  lecturer are added to the store of the first run.\<close>

definition lfields1 :: lecturer_fields where
  "lfields1 =
     \<lparr>lf_name = ''Grace'', lf_username = ''l1'', lf_password = ''pw'', lf_email = [],
      lf_phone = [], lf_staffId = ''ST1'', lf_department = ''CS''\<rparr>"

definition world_student :: world where
  "world_student = snd (addStudent fields1 world0)"

definition world_lecturer :: world where
  "world_lecturer = snd (addLecturer lfields1 world0)"

text \<open>The fields of a course of no units.\<close>

definition cfields0 :: course_fields where
  "cfields0 = \<lparr>cf_code = ''GST100'', cf_title = ''Orientation'', cf_units = ''0'',
                cf_lecturerId = []\<rparr>"

subsection \<open>Example data of the GPA\<close>

text \<open>Courses of 3, of 2 and of \<open>-3\<close> units, and three courses whose units add up to 1
  but not in binary64: \<open>2 ^ 53\<close>, \<open>1\<close> and \<open>- 2 ^ 53\<close>.\<close>

definition cfields3 :: course_fields where
  "cfields3 = \<lparr>cf_code = ''CIT101'', cf_title = ''Computing'', cf_units = ''3'',
                cf_lecturerId = []\<rparr>"

definition cfields2 :: course_fields where
  "cfields2 = \<lparr>cf_code = ''CIT102'', cf_title = ''Software'', cf_units = ''2'',
                cf_lecturerId = []\<rparr>"

definition cfields_neg :: course_fields where
  "cfields_neg = \<lparr>cf_code = ''CIT102'', cf_title = ''Software'', cf_units = ''-3'',
                   cf_lecturerId = []\<rparr>"

definition cfields_big :: course_fields where
  "cfields_big = \<lparr>cf_code = ''BIG1'', cf_title = ''Thesis'',
                   cf_units = ''9007199254740992'', cf_lecturerId = []\<rparr>"

definition cfields_one :: course_fields where
  "cfields_one = \<lparr>cf_code = ''BIG2'', cf_title = ''Seminar'', cf_units = ''1'',
                   cf_lecturerId = []\<rparr>"

definition cfields_big_neg :: course_fields where
  "cfields_big_neg = \<lparr>cf_code = ''BIG3'', cf_title = ''Waiver'',
                       cf_units = ''-9007199254740992'', cf_lecturerId = []\<rparr>"

text \<open>
  A store of two students: \<open>s1\<close> has an \<open>A\<close> in the course of 3 units and a \<open>C\<close> in the
  course of 2 units, \<open>s2\<close> a \<open>B\<close> in the course of 3 units. A store where the units of
  the courses of \<open>s1\<close> add up to zero. A store where \<open>s1\<close> has an \<open>A\<close> in each of the three
  courses of many units.
\<close>

definition world_gpa :: world where
  "world_gpa =
     upsertResult ''s1'' ''h2'' 55 actor0
       (upsertResult ''s2'' ''h1'' 65 actor0
         (upsertResult ''s1'' ''h1'' 75 actor0
           (snd (addCourse cfields2 (snd (addCourse cfields3 world0))))))"

definition world_zero :: world where
  "world_zero =
     upsertResult ''s1'' ''h2'' 70 actor0
       (upsertResult ''s2'' ''h1'' 65 actor0
         (upsertResult ''s1'' ''h1'' 75 actor0
           (snd (addCourse cfields_neg (snd (addCourse cfields3 world0))))))"

definition world_big :: world where
  "world_big =
     upsertResult ''s1'' ''h3'' 90 actor0
       (upsertResult ''s1'' ''h2'' 80 actor0
         (upsertResult ''s1'' ''h1'' 70 actor0
           (snd (addCourse cfields_big_neg
             (snd (addCourse cfields_one (snd (addCourse cfields_big world0))))))))"






section \<open>Properties\<close>

subsection \<open>Searching a list\<close>

lemma findIndex_None_iff: "findIndex P xs = None \<longleftrightarrow> (\<forall>x\<in>set xs. \<not> P x)"
  by (induction xs) auto

lemma findIndex_Some_D:
  "findIndex P xs = Some i \<Longrightarrow> i < length xs \<and> P (xs ! i) \<and> (\<forall>j<i. \<not> P (xs ! j))"
proof (induction xs arbitrary: i)
  case Nil
  then show ?case by simp
next
  case (Cons x xs)
  show ?case
  proof (cases "P x")
    case True
    with Cons.prems show ?thesis by simp
  next
    case False
    with Cons.prems obtain k where k: "findIndex P xs = Some k" "i = Suc k" by auto
    from Cons.IH [OF k(1)] False k(2) show ?thesis
      by (auto simp: less_Suc_eq_0_disj)
  qed
qed


subsection \<open>What each call changes\<close>

lemma host_simps:
  "uid w = (env w (tick w), w\<lparr>tick := Suc (tick w)\<rparr>)"
  "now w = (env w (tick w), w\<lparr>tick := Suc (tick w)\<rparr>)"
  "Date_now w = (env w (tick w), w\<lparr>tick := Suc (tick w)\<rparr>)"
  by (simp_all add: uid_def now_def Date_now_def host_read_def)

lemma enroll_enrollments:
  "enrollments (enroll s c sem w) =
     (if \<exists>e\<in>set (enrollments w). e_studentId e = s \<and> e_courseId e = c then enrollments w
      else enrollments w @
        [\<lparr>e_id = env w (tick w), e_studentId = s, e_courseId = c,
          e_semester = (case sem of None \<Rightarrow> ''2024/2025'' | Some x \<Rightarrow> x),
          e_date = takeWhile (\<lambda>ch. ch \<noteq> CHR '' '') (env w (Suc (tick w)))\<rparr>])"
  by (auto simp: enroll_def host_simps Let_def find_None_iff)

lemma enroll_frame:
  "users (enroll s c sem w) = users w"
  "students (enroll s c sem w) = students w"
  "lecturers (enroll s c sem w) = lecturers w"
  "courses (enroll s c sem w) = courses w"
  "results (enroll s c sem w) = results w"
  "materials (enroll s c sem w) = materials w"
  "audit_trail (enroll s c sem w) = audit_trail w"
  "feedback (enroll s c sem w) = feedback w"
  "booted (enroll s c sem w) = booted w"
  "env (enroll s c sem w) = env w"
  by (simp_all add: enroll_def host_simps Let_def)


lemma addAuditEntry_frame:
  "users (addAuditEntry f w) = users w"
  "students (addAuditEntry f w) = students w"
  "lecturers (addAuditEntry f w) = lecturers w"
  "courses (addAuditEntry f w) = courses w"
  "enrollments (addAuditEntry f w) = enrollments w"
  "results (addAuditEntry f w) = results w"
  "materials (addAuditEntry f w) = materials w"
  "feedback (addAuditEntry f w) = feedback w"
  "booted (addAuditEntry f w) = booted w"
  "env (addAuditEntry f w) = env w"
  by (simp_all add: addAuditEntry_def host_simps Let_def)

lemma upsertResult_results:
  "results (upsertResult s c score actor w) =
     (case findIndex (\<lambda>r. r_studentId r = s \<and> r_courseId r = c) (results w) of
        Some i \<Rightarrow> (results w)[i := (results w ! i)
            \<lparr>r_score := score, r_grade := scoreToGrade (Num score), r_updatedAt := env w (tick w),
             r_updatedBy := u_name actor\<rparr>]
      | None \<Rightarrow> results w @
          [\<lparr>r_id = env w (Suc (tick w)), r_studentId = s, r_courseId = c, r_score = score,
            r_grade = scoreToGrade (Num score), r_semester = ''2024/2025'',
            r_updatedAt = env w (tick w), r_updatedBy = u_name actor\<rparr>])"
  by (simp add: upsertResult_def host_simps Let_def addAuditEntry_frame enroll_frame
      split: option.splits)

lemma upsertResult_enrollments:
  "enrollments (upsertResult s c score actor w) =
     (case findIndex (\<lambda>r. r_studentId r = s \<and> r_courseId r = c) (results w) of
        Some i \<Rightarrow> enrollments w
      | None \<Rightarrow>
         (if \<exists>e\<in>set (enrollments w). e_studentId e = s \<and> e_courseId e = c then enrollments w
          else enrollments w @
            [\<lparr>e_id = env w (Suc (Suc (tick w))), e_studentId = s, e_courseId = c,
              e_semester = ''2024/2025'',
              e_date = takeWhile (\<lambda>ch. ch \<noteq> CHR '' '') (env w (Suc (Suc (Suc (tick w)))))\<rparr>]))"
  by (simp add: upsertResult_def host_simps Let_def addAuditEntry_frame enroll_enrollments
      split: option.splits)

lemma submitFeedback_feedback:
  "feedback (submitFeedback f w) =
     (let entry = \<lparr>f_id = env w (tick w), f_userId = ff_userId f, f_userName = ff_userName f,
                   f_role = ff_role f, f_easeOfUse = ff_easeOfUse f, f_speed = ff_speed f,
                   f_satisfaction = ff_satisfaction f, f_comments = ff_comments f,
                   f_submittedAt = env w (Suc (tick w))\<rparr>
      in case findIndex (\<lambda>e. f_userId e = ff_userId f) (feedback w) of
           Some k \<Rightarrow> (feedback w)[k := entry]
         | None \<Rightarrow> feedback w @ [entry])"
  by (simp add: submitFeedback_def host_simps Let_def split: option.splits)

lemma submitFeedback_frame:
  "users (submitFeedback f w) = users w"
  "students (submitFeedback f w) = students w"
  "lecturers (submitFeedback f w) = lecturers w"
  "courses (submitFeedback f w) = courses w"
  "enrollments (submitFeedback f w) = enrollments w"
  "results (submitFeedback f w) = results w"
  "materials (submitFeedback f w) = materials w"
  "audit_trail (submitFeedback f w) = audit_trail w"
  "booted (submitFeedback f w) = booted w"
  "env (submitFeedback f w) = env w"
  "tick (submitFeedback f w) = Suc (Suc (tick w))"
  by (simp_all add: submitFeedback_def host_simps Let_def split: option.splits)

lemma upsertResult_frame:
  "users (upsertResult s c score actor w) = users w"
  "students (upsertResult s c score actor w) = students w"
  "lecturers (upsertResult s c score actor w) = lecturers w"
  "courses (upsertResult s c score actor w) = courses w"
  "materials (upsertResult s c score actor w) = materials w"
  "feedback (upsertResult s c score actor w) = feedback w"
  "booted (upsertResult s c score actor w) = booted w"
  "env (upsertResult s c score actor w) = env w"
  by (simp_all add: upsertResult_def host_simps Let_def addAuditEntry_frame enroll_frame
      split: option.splits)

lemma addStudent_frame:
  "lecturers (snd (addStudent f w)) = lecturers w"
  "courses (snd (addStudent f w)) = courses w"
  "enrollments (snd (addStudent f w)) = enrollments w"
  "results (snd (addStudent f w)) = results w"
  "materials (snd (addStudent f w)) = materials w"
  "audit_trail (snd (addStudent f w)) = audit_trail w"
  "feedback (snd (addStudent f w)) = feedback w"
  "booted (snd (addStudent f w)) = booted w"
  "env (snd (addStudent f w)) = env w"
  by (simp_all add: addStudent_def host_simps Let_def)

lemma addLecturer_frame:
  "students (snd (addLecturer f w)) = students w"
  "courses (snd (addLecturer f w)) = courses w"
  "enrollments (snd (addLecturer f w)) = enrollments w"
  "results (snd (addLecturer f w)) = results w"
  "materials (snd (addLecturer f w)) = materials w"
  "audit_trail (snd (addLecturer f w)) = audit_trail w"
  "feedback (snd (addLecturer f w)) = feedback w"
  "booted (snd (addLecturer f w)) = booted w"
  "env (snd (addLecturer f w)) = env w"
  by (simp_all add: addLecturer_def host_simps Let_def)

lemma addCourse_frame:
  "users (snd (addCourse f w)) = users w"
  "students (snd (addCourse f w)) = students w"
  "lecturers (snd (addCourse f w)) = lecturers w"
  "enrollments (snd (addCourse f w)) = enrollments w"
  "results (snd (addCourse f w)) = results w"
  "materials (snd (addCourse f w)) = materials w"
  "audit_trail (snd (addCourse f w)) = audit_trail w"
  "feedback (snd (addCourse f w)) = feedback w"
  "booted (snd (addCourse f w)) = booted w"
  "env (snd (addCourse f w)) = env w"
  by (simp_all add: addCourse_def host_simps Let_def)

lemma assignLecturerToCourse_frame:
  "users (assignLecturerToCourse c l w) = users w"
  "students (assignLecturerToCourse c l w) = students w"
  "lecturers (assignLecturerToCourse c l w) = lecturers w"
  "enrollments (assignLecturerToCourse c l w) = enrollments w"
  "results (assignLecturerToCourse c l w) = results w"
  "materials (assignLecturerToCourse c l w) = materials w"
  "audit_trail (assignLecturerToCourse c l w) = audit_trail w"
  "feedback (assignLecturerToCourse c l w) = feedback w"
  "booted (assignLecturerToCourse c l w) = booted w"
  "env (assignLecturerToCourse c l w) = env w"
  "tick (assignLecturerToCourse c l w) = tick w"
  by (simp_all add: assignLecturerToCourse_def Let_def split: option.splits)

lemma uploadMaterial_frame:
  "users (uploadMaterial f w) = users w"
  "students (uploadMaterial f w) = students w"
  "lecturers (uploadMaterial f w) = lecturers w"
  "courses (uploadMaterial f w) = courses w"
  "enrollments (uploadMaterial f w) = enrollments w"
  "results (uploadMaterial f w) = results w"
  "audit_trail (uploadMaterial f w) = audit_trail w"
  "feedback (uploadMaterial f w) = feedback w"
  "booted (uploadMaterial f w) = booted w"
  "env (uploadMaterial f w) = env w"
  by (simp_all add: uploadMaterial_def host_simps Let_def)

lemma deleteMaterial_frame:
  "users (deleteMaterial i w) = users w"
  "students (deleteMaterial i w) = students w"
  "lecturers (deleteMaterial i w) = lecturers w"
  "courses (deleteMaterial i w) = courses w"
  "enrollments (deleteMaterial i w) = enrollments w"
  "results (deleteMaterial i w) = results w"
  "audit_trail (deleteMaterial i w) = audit_trail w"
  "feedback (deleteMaterial i w) = feedback w"
  "booted (deleteMaterial i w) = booted w"
  "env (deleteMaterial i w) = env w"
  "tick (deleteMaterial i w) = tick w"
  by (simp_all add: deleteMaterial_def)

lemma addStudent_users_students:
  "users (snd (addStudent f w)) = users w \<and> students (snd (addStudent f w)) = students w \<or>
   (\<exists>u s. users (snd (addStudent f w)) = users w @ [u] \<and>
      students (snd (addStudent f w)) = students w @ [s] \<and> s_userId s = u_id u)"
  by (simp add: addStudent_def host_simps Let_def)

lemma addLecturer_users_lecturers:
  "users (snd (addLecturer f w)) = users w \<and> lecturers (snd (addLecturer f w)) = lecturers w \<or>
   (\<exists>u l. users (snd (addLecturer f w)) = users w @ [u] \<and>
      lecturers (snd (addLecturer f w)) = lecturers w @ [l] \<and> l_userId l = u_id u)"
  by (simp add: addLecturer_def host_simps Let_def split: prod.splits)

subsection \<open>Every store the module builds is consistent\<close>

lemma map_key_list_update:
  "i < length xs \<Longrightarrow> k v = k (xs ! i) \<Longrightarrow> map k (xs[i := v]) = map k xs"
  by (simp add: map_update list_update_same_conv)

lemma getUserById_iff: "getUserById i w \<noteq> None \<longleftrightarrow> (\<exists>u\<in>set (users w). u_id u = i)"
  by (auto simp: getUserById_def find_None_iff)

lemma enroll_keys:
  "distinct (map enr_key (enrollments w)) \<Longrightarrow>
   distinct (map enr_key (enrollments (enroll s c sem w)))"
  by (auto simp: enroll_enrollments enr_key_def)

lemma upsertResult_enr_keys:
  "distinct (map enr_key (enrollments w)) \<Longrightarrow>
   distinct (map enr_key (enrollments (upsertResult s c score actor w)))"
  by (auto simp: upsertResult_enrollments enr_key_def split: option.splits)

lemma upsertResult_res_keys_map:
  "findIndex (\<lambda>r. r_studentId r = s \<and> r_courseId r = c) (results w) = Some i \<Longrightarrow>
   map res_key (results (upsertResult s c score actor w)) = map res_key (results w)"
  by (auto simp: upsertResult_results res_key_def dest!: findIndex_Some_D
      intro!: map_key_list_update)

lemma upsertResult_res_keys:
  assumes "distinct (map res_key (results w))"
  shows "distinct (map res_key (results (upsertResult s c score actor w)))"
proof (cases "findIndex (\<lambda>r. r_studentId r = s \<and> r_courseId r = c) (results w)")
  case None
  then have "\<forall>r\<in>set (results w). \<not> (r_studentId r = s \<and> r_courseId r = c)"
    by (simp add: findIndex_None_iff)
  with assms None show ?thesis
    by (auto simp: upsertResult_results res_key_def)
next
  case (Some i)
  with assms show ?thesis by (simp add: upsertResult_res_keys_map)
qed

lemma upsertResult_grades:
  assumes "list_all (\<lambda>r. r_grade r = scoreToGrade (Num (r_score r))) (results w)"
  shows "list_all (\<lambda>r. r_grade r = scoreToGrade (Num (r_score r)))
           (results (upsertResult s c score actor w))"
proof (cases "findIndex (\<lambda>r. r_studentId r = s \<and> r_courseId r = c) (results w)")
  case None
  with assms show ?thesis by (simp add: upsertResult_results)
next
  case (Some i)
  have "\<And>x. x \<in> set ((results w)[i := (results w ! i)
            \<lparr>r_score := score, r_grade := scoreToGrade (Num score), r_updatedAt := env w (tick w),
             r_updatedBy := u_name actor\<rparr>]) \<Longrightarrow> r_grade x = scoreToGrade (Num (r_score x))"
    using assms by (auto simp: list_all_iff dest!: set_update_subset_insert [THEN subsetD])
  with Some show ?thesis by (simp add: upsertResult_results list_all_iff)
qed

lemma submitFeedback_keys:
  assumes "distinct (map f_userId (feedback w))"
  shows "distinct (map f_userId (feedback (submitFeedback f w)))"
proof (cases "findIndex (\<lambda>e. f_userId e = ff_userId f) (feedback w)")
  case None
  then have "\<forall>e\<in>set (feedback w). f_userId e \<noteq> ff_userId f"
    by (simp add: findIndex_None_iff)
  with assms None show ?thesis
    by (auto simp: submitFeedback_feedback)
next
  case (Some k)
  then have "k < length (feedback w)" "f_userId (feedback w ! k) = ff_userId f"
    using findIndex_Some_D [OF Some] by auto
  then have "map f_userId (feedback (submitFeedback f w)) = map f_userId (feedback w)"
    using Some by (simp add: submitFeedback_feedback map_key_list_update)
  with assms show ?thesis by simp
qed

lemma consistent_exec: "consistent w \<Longrightarrow> consistent (exec c w)"
proof (cases c)
  case (AddStudent f)
  assume c: "consistent w"
  from addStudent_users_students [of f w] c show ?thesis
    unfolding AddStudent consistent_def
    by (auto simp: addStudent_frame list_all_iff)
next
  case (AddLecturer f)
  assume c: "consistent w"
  from addLecturer_users_lecturers [of f w] c show ?thesis
    unfolding AddLecturer consistent_def
    by (auto simp: addLecturer_frame list_all_iff)
next
  case (AddCourse f)
  assume "consistent w"
  then show ?thesis
    unfolding AddCourse consistent_def
    by (simp add: addCourse_frame list_all_iff)
next
  case (AssignLecturerToCourse x y)
  assume "consistent w"
  then show ?thesis
    unfolding AssignLecturerToCourse consistent_def
    by (simp add: assignLecturerToCourse_frame list_all_iff)
next
  case (Enroll s c' sem)
  assume "consistent w"
  then show ?thesis
    unfolding Enroll consistent_def
    by (simp add: enroll_frame enroll_keys list_all_iff)
next
  case (UpsertResult s c' score actor)
  assume "consistent w"
  then show ?thesis
    unfolding UpsertResult consistent_def
    by (simp add: upsertResult_frame upsertResult_enr_keys upsertResult_res_keys
        upsertResult_grades)
next
  case (UploadMaterial f)
  assume "consistent w"
  then show ?thesis
    unfolding UploadMaterial consistent_def
    by (simp add: uploadMaterial_frame list_all_iff)
next
  case (DeleteMaterial i)
  assume "consistent w"
  then show ?thesis
    unfolding DeleteMaterial consistent_def
    by (simp add: deleteMaterial_frame list_all_iff)
next
  case (AddAuditEntry f)
  assume "consistent w"
  then show ?thesis
    unfolding AddAuditEntry consistent_def
    by (simp add: addAuditEntry_frame list_all_iff)
next
  case (SubmitFeedback f)
  assume "consistent w"
  then show ?thesis
    unfolding SubmitFeedback consistent_def
    by (simp add: submitFeedback_frame submitFeedback_keys list_all_iff)
next
  case Boot
  assume "consistent w"
  then show ?thesis
    unfolding Boot consistent_def
    by (simp add: boot_def host_simps Let_def)
qed

lemma consistent_start: "consistent (boot (fresh h))"
  by (simp add: consistent_def boot_def fresh_def host_simps)

lemma reachable_consistent: "reachable w \<Longrightarrow> consistent w"
  by (induction rule: reachable.induct) (simp_all add: consistent_start consistent_exec)

subsection \<open>The example stores\<close>

lemma host0_values:
  "host0 0 = ''h0''" "host0 (Suc 0) = ''h1''" "host0 (Suc (Suc 0)) = ''h2''"
  "host0 (Suc (Suc (Suc 0))) = ''h3''"
  by (simp_all add: host0_def digits.simps digit_char_def)

lemma world0_fields:
  "users world0 = [actor0]" "students world0 = []" "lecturers world0 = []"
  "courses world0 = []" "enrollments world0 = []" "results world0 = []"
  "materials world0 = []" "audit_trail world0 = []" "feedback world0 = []"
  "booted world0" "env world0 = host0" "tick world0 = Suc 0"
  by (simp_all add: world0_def boot_def fresh_def host_simps actor0_def host0_values)

lemma reachable_world0: "reachable world0"
  unfolding world0_def by (rule reachable.start)



subsection \<open>Enrolling\<close>

lemma filter_distinct_key:
  "distinct (map k xs) \<Longrightarrow> x \<in> set xs \<Longrightarrow> filter (\<lambda>y. k y = k x) xs = [x]"
proof (induction xs)
  case Nil
  then show ?case by simp
next
  case (Cons a xs)
  show ?case
  proof (cases "a = x")
    case True
    from Cons.prems(1) have "\<forall>y\<in>set xs. k y \<noteq> k a" by (auto simp: image_iff)
    then have "filter (\<lambda>y. k y = k a) xs = []" by (simp add: filter_empty_conv)
    with True show ?thesis by simp
  next
    case False
    with Cons.prems have x: "x \<in> set xs" and d: "distinct (map k xs)" by auto
    from Cons.prems(1) x have "k a \<noteq> k x" by (auto simp: image_iff)
    with Cons.IH [OF d x] show ?thesis by simp
  qed
qed

lemma enr_filter_unique:
  assumes "distinct (map enr_key es)" and "e \<in> set es" and "e_studentId e = s" and "e_courseId e = c"
  shows "filter (\<lambda>x. e_studentId x = s \<and> e_courseId x = c) es = [e]"
proof -
  have "(\<lambda>x. e_studentId x = s \<and> e_courseId x = c) = (\<lambda>y. enr_key y = enr_key e)"
    using assms(3,4) by (auto simp: enr_key_def)
  with filter_distinct_key [OF assms(1,2)] show ?thesis by simp
qed


lemma enroll_member:
  "\<exists>e\<in>set (enrollments (enroll s c sem w)). e_studentId e = s \<and> e_courseId e = c"
  by (auto simp: enroll_enrollments)

lemma enroll_again: "enroll s c sem' (enroll s c sem w) = enroll s c sem w"
proof -
  have "find (\<lambda>e. e_studentId e = s \<and> e_courseId e = c) (enrollments (enroll s c sem w)) \<noteq> None"
    using enroll_member [of s c sem w] by (auto simp: find_None_iff)
  then show ?thesis by (simp add: enroll_def [of s c sem' "enroll s c sem w"] Let_def)
qed

lemma enroll_funpow: "(enroll s c sem ^^ Suc n) w = enroll s c sem w"
  by (induction n) (simp_all add: enroll_again)

lemma enroll_exactly_one:
  assumes "distinct (map enr_key (enrollments w))"
  shows "\<exists>e. filter (\<lambda>x. e_studentId x = s \<and> e_courseId x = c)
            (enrollments (enroll s c sem w)) = [e]"
proof -
  from enroll_member [of s c sem w] obtain e
    where e: "e \<in> set (enrollments (enroll s c sem w))" "e_studentId e = s" "e_courseId e = c"
    by blast
  from enr_filter_unique [OF enroll_keys [OF assms] e] show ?thesis by blast
qed

text \<open>
  Claim C7. \<open>enroll\<close> is idempotent: in a store the module has built, calling
  \<open>enroll(studentId, courseId, semester)\<close> \<open>n \<ge> 1\<close> times leaves exactly one
  enrollment for the pair; \<open>n\<close> calls leave the store that one call leaves, and a call
  after them leaves the enrollments as they are.
\<close>

theorem enroll_idempotent:
  assumes "reachable w" and "1 \<le> n"
  shows "(\<exists>e. filter (\<lambda>x. e_studentId x = s \<and> e_courseId x = c)
            (enrollments ((enroll s c sem ^^ n) w)) = [e]) \<and>
         (enroll s c sem ^^ n) w = enroll s c sem w \<and>
         enrollments (enroll s c sem ((enroll s c sem ^^ n) w)) =
           enrollments ((enroll s c sem ^^ n) w)"
proof -
  from assms(2) obtain k where n: "n = Suc k" by (cases n) auto
  have d: "distinct (map enr_key (enrollments w))"
    using reachable_consistent [OF assms(1)] by (simp add: consistent_def)
  have eq: "(enroll s c sem ^^ n) w = enroll s c sem w"
    unfolding n by (rule enroll_funpow)
  show ?thesis
    using enroll_exactly_one [OF d, of s c sem] by (simp add: eq enroll_again)
qed

theorem enroll_idempotent_witness:
  "reachable world0 \<and> (1::nat) \<le> 3 \<and>
   (\<exists>e. filter (\<lambda>x. e_studentId x = ''s1'' \<and> e_courseId x = ''c1'')
          (enrollments ((enroll ''s1'' ''c1'' None ^^ 3) world0)) = [e] \<and>
        e_semester e = ''2024/2025'') \<and>
   (enroll ''s1'' ''c1'' None ^^ 3) world0 = enroll ''s1'' ''c1'' None world0 \<and>
   length (enrollments ((enroll ''s1'' ''c1'' None ^^ 3) world0)) = 1"
proof -
  have e: "enrollments (enroll ''s1'' ''c1'' None world0) =
      [\<lparr>e_id = ''h1'', e_studentId = ''s1'', e_courseId = ''c1'', e_semester = ''2024/2025'',
        e_date = ''h2''\<rparr>]"
    by (simp add: enroll_enrollments world0_fields host0_values)
  from enroll_idempotent [OF reachable_world0, of 3 "''s1''" "''c1''" None]
  show ?thesis
    using reachable_world0 by (simp add: e)
qed

subsection \<open>Entering and updating a result\<close>












subsection \<open>Adding a student\<close>

text \<open>
  Claim C6. \<open>addStudent\<close> fails with the error of a duplicate key when the username exists
  among the users or the matric number among the students, and the store stays as it was:
  no user and no student is written. Otherwise it appends a user with the role
  \<open>student\<close> and a student linked to that user, returns the id of the new student, and
  changes no other collection.
\<close>

theorem addStudent_duplicate_or_created:
  "(if \<exists>u\<in>set (users w). u_username u = sf_username f
    then addStudent f w = (Inl (Error ''Username already exists.''), w)
    else if \<exists>s\<in>set (students w). s_matric s = sf_matric f
    then addStudent f w = (Inl (Error ''Matric number already exists.''), w)
    else \<exists>u s w'.
      addStudent f w = (Inr (s_id s), w') \<and>
      users w' = users w @ [u] \<and> students w' = students w @ [s] \<and>
      u_role u = ''student'' \<and> u_username u = sf_username f \<and> u_name u = sf_name f \<and>
      s_userId s = u_id u \<and> s_matric s = sf_matric f \<and>
      lecturers w' = lecturers w \<and> courses w' = courses w \<and>
      enrollments w' = enrollments w \<and> results w' = results w \<and>
      materials w' = materials w \<and> audit_trail w' = audit_trail w \<and>
      feedback w' = feedback w)"
  by (auto simp: addStudent_def host_simps Let_def find_None_iff)

theorem addStudent_duplicate_or_created_witness:
  "(\<exists>u s w'. addStudent fields1 world0 = (Inr (s_id s), w') \<and>
       users w' = users world0 @ [u] \<and> students w' = students world0 @ [s] \<and>
       u_role u = ''student'' \<and> s_userId s = u_id u) \<and>
   fst (addStudent fields1 world0) = Inr ''h3'' \<and>
   addStudent (fields1\<lparr>sf_matric := ''M2''\<rparr>) (snd (addStudent fields1 world0)) =
     (Inl (Error ''Username already exists.''), snd (addStudent fields1 world0)) \<and>
   addStudent (fields1\<lparr>sf_username := ''s2''\<rparr>) (snd (addStudent fields1 world0)) =
     (Inl (Error ''Matric number already exists.''), snd (addStudent fields1 world0)) \<and>
   length (students (snd (addStudent fields1 world0))) = 1"
proof -
  let ?w1 = "snd (addStudent fields1 world0)"
  have u: "users ?w1 = [actor0,
      \<lparr>u_id = ''h1'', u_username = ''s1'', u_password = ''pw'', u_role = ''student'',
        u_name = ''Ada'', u_email = ''s1@noun.edu.ng'', u_phone = [], u_createdAt = ''h2''\<rparr>]"
    and s: "students ?w1 = [\<lparr>s_id = ''h3'', s_userId = ''h1'', s_matric = ''M1'',
        s_department = ''CS'', s_level = ''100'', s_studyCenter = ''Main Campus''\<rparr>]"
    and r: "fst (addStudent fields1 world0) = Inr ''h3''"
    by (simp_all add: addStudent_def host_simps Let_def world0_fields fields1_def
        host0_values actor0_def or_else_def)
  have f: "sf_username fields1 = ''s1''" "sf_matric fields1 = ''M1''"
    by (simp_all add: fields1_def)
  have new: "\<not> (\<exists>u\<in>set (users world0). u_username u = sf_username fields1)"
    "\<not> (\<exists>s\<in>set (students world0). s_matric s = sf_matric fields1)"
    by (simp_all add: world0_fields f actor0_def)
  have c1: "\<exists>u s w'. addStudent fields1 world0 = (Inr (s_id s), w') \<and>
       users w' = users world0 @ [u] \<and> students w' = students world0 @ [s] \<and>
       u_role u = ''student'' \<and> s_userId s = u_id u"
    using addStudent_duplicate_or_created [of world0 fields1] new
    by (simp only: if_False) blast
  have dup_name: "\<exists>u\<in>set (users ?w1). u_username u = sf_username (fields1\<lparr>sf_matric := ''M2''\<rparr>)"
    by (simp add: u f)
  have c2: "addStudent (fields1\<lparr>sf_matric := ''M2''\<rparr>) ?w1 =
      (Inl (Error ''Username already exists.''), ?w1)"
    using addStudent_duplicate_or_created [of ?w1 "fields1\<lparr>sf_matric := ''M2''\<rparr>"] dup_name
    by (simp only: if_True)
  have new_name: "\<not> (\<exists>u\<in>set (users ?w1). u_username u = sf_username (fields1\<lparr>sf_username := ''s2''\<rparr>))"
    by (simp add: u f actor0_def)
  have dup_matric: "\<exists>s\<in>set (students ?w1). s_matric s = sf_matric (fields1\<lparr>sf_username := ''s2''\<rparr>)"
    by (simp add: s f)
  have c3: "addStudent (fields1\<lparr>sf_username := ''s2''\<rparr>) ?w1 =
      (Inl (Error ''Matric number already exists.''), ?w1)"
    using addStudent_duplicate_or_created [of ?w1 "fields1\<lparr>sf_username := ''s2''\<rparr>"]
      new_name dup_matric
    by (simp only: if_True if_False)
  from c1 r c2 c3 s show ?thesis by simp
qed

subsection \<open>Feedback\<close>

lemma filter_list_update_other:
  "k < length xs \<Longrightarrow> \<not> P (xs ! k) \<Longrightarrow> \<not> P v \<Longrightarrow> filter P (xs[k := v]) = filter P xs"
proof (induction xs arbitrary: k)
  case Nil
  then show ?case by simp
next
  case (Cons x xs)
  then show ?case by (cases k) simp_all
qed

lemma submitFeedback_other:
  assumes "ff_userId g \<noteq> u"
  shows "filter (\<lambda>e. f_userId e = u) (feedback (submitFeedback g w)) =
         filter (\<lambda>e. f_userId e = u) (feedback w)"
proof (cases "findIndex (\<lambda>e. f_userId e = ff_userId g) (feedback w)")
  case None
  with assms show ?thesis by (simp add: submitFeedback_feedback)
next
  case (Some k)
  from findIndex_Some_D [OF Some]
  have "k < length (feedback w)" "f_userId (feedback w ! k) = ff_userId g" by auto
  with assms Some show ?thesis
    by (simp add: submitFeedback_feedback filter_list_update_other)
qed

lemma fold_submitFeedback_other:
  "\<forall>g\<in>set gs. ff_userId g \<noteq> u \<Longrightarrow>
   filter (\<lambda>e. f_userId e = u) (feedback (fold submitFeedback gs w)) =
   filter (\<lambda>e. f_userId e = u) (feedback w)"
  by (induction gs arbitrary: w) (simp_all add: submitFeedback_other)

lemma fold_submitFeedback_keys:
  "distinct (map f_userId (feedback w)) \<Longrightarrow>
   distinct (map f_userId (feedback (fold submitFeedback gs w)))"
  by (induction gs arbitrary: w) (simp_all add: submitFeedback_keys)

lemma submitFeedback_member:
  "\<lparr>f_id = fst (uid w), f_userId = ff_userId f, f_userName = ff_userName f,
     f_role = ff_role f, f_easeOfUse = ff_easeOfUse f, f_speed = ff_speed f,
     f_satisfaction = ff_satisfaction f, f_comments = ff_comments f,
     f_submittedAt = fst (now (snd (uid w)))\<rparr> \<in> set (feedback (submitFeedback f w))"
proof (cases "findIndex (\<lambda>e. f_userId e = ff_userId f) (feedback w)")
  case None
  then show ?thesis by (simp add: submitFeedback_feedback host_simps)
next
  case (Some k)
  from findIndex_Some_D [OF Some] have "k < length (feedback w)" by simp
  with Some show ?thesis
    by (simp add: submitFeedback_feedback host_simps set_update_memI)
qed

lemma fb_filter_unique:
  assumes "distinct (map f_userId es)" and "e \<in> set es"
  shows "filter (\<lambda>x. f_userId x = f_userId e) es = [e]"
  using filter_distinct_key [OF assms] .

text \<open>
  Claim C8. \<open>submitFeedback\<close> keeps at most one feedback record for each user. After
  any sequence of calls on a store the module has built, which consists of the calls
  \<open>pre\<close>, then a call with the fields \<open>f\<close>, then calls \<open>post\<close> for other users (so \<open>f\<close> is
  the most recent call for its user), no user has two records, and the user of \<open>f\<close> has
  exactly one: it holds the values of \<open>f\<close>, the id that \<open>uid()\<close> gave during that call
  and the time of that call. A record the user had before is replaced.
\<close>

theorem submitFeedback_one_per_user:
  assumes "reachable w" and "\<forall>g\<in>set post. ff_userId g \<noteq> ff_userId f"
  shows "distinct (map f_userId (feedback (fold submitFeedback (pre @ f # post) w))) \<and>
         filter (\<lambda>e. f_userId e = ff_userId f)
           (feedback (fold submitFeedback (pre @ f # post) w)) =
         [\<lparr>f_id = fst (uid (fold submitFeedback pre w)), f_userId = ff_userId f,
           f_userName = ff_userName f, f_role = ff_role f, f_easeOfUse = ff_easeOfUse f,
           f_speed = ff_speed f, f_satisfaction = ff_satisfaction f,
           f_comments = ff_comments f,
           f_submittedAt = fst (now (snd (uid (fold submitFeedback pre w))))\<rparr>]"
proof -
  let ?w1 = "fold submitFeedback pre w"
  let ?e = "\<lparr>f_id = fst (uid ?w1), f_userId = ff_userId f,
           f_userName = ff_userName f, f_role = ff_role f, f_easeOfUse = ff_easeOfUse f,
           f_speed = ff_speed f, f_satisfaction = ff_satisfaction f,
           f_comments = ff_comments f, f_submittedAt = fst (now (snd (uid ?w1)))\<rparr>"
  have d0: "distinct (map f_userId (feedback w))"
    using reachable_consistent [OF assms(1)] by (simp add: consistent_def)
  then have d1: "distinct (map f_userId (feedback ?w1))" by (rule fold_submitFeedback_keys)
  then have d2: "distinct (map f_userId (feedback (submitFeedback f ?w1)))"
    by (rule submitFeedback_keys)
  have "filter (\<lambda>x. f_userId x = f_userId ?e) (feedback (submitFeedback f ?w1)) = [?e]"
    using d2 submitFeedback_member by (rule fb_filter_unique)
  then have one: "filter (\<lambda>x. f_userId x = ff_userId f) (feedback (submitFeedback f ?w1)) = [?e]"
    by simp
  have "filter (\<lambda>e. f_userId e = ff_userId f)
          (feedback (fold submitFeedback post (submitFeedback f ?w1))) = [?e]"
    using fold_submitFeedback_other [OF assms(2)] one by simp
  moreover have "distinct (map f_userId (feedback (fold submitFeedback post (submitFeedback f ?w1))))"
    using d2 by (rule fold_submitFeedback_keys)
  ultimately show ?thesis by simp
qed

lemma feedback1_fields:
  "ff_userId feedback1 = ''u1''" "ff_userName feedback1 = ''Ada''"
  "ff_role feedback1 = ''student''" "ff_easeOfUse feedback1 = 3" "ff_speed feedback1 = 3"
  "ff_satisfaction feedback1 = 3" "ff_comments feedback1 = ''ok''"
  by (simp_all add: feedback1_def)

lemma feedback2_fields:
  "ff_userId feedback2 = ''u1''" "ff_userName feedback2 = ''Ada''"
  "ff_role feedback2 = ''student''" "ff_easeOfUse feedback2 = 5" "ff_speed feedback2 = 4"
  "ff_satisfaction feedback2 = 4" "ff_comments feedback2 = ''better''"
  by (simp_all add: feedback2_def)

theorem submitFeedback_one_per_user_witness:
  "reachable world0 \<and>
   feedback (fold submitFeedback [feedback1, feedback2] world0) =
     [\<lparr>f_id = ''h3'', f_userId = ''u1'', f_userName = ''Ada'', f_role = ''student'',
       f_easeOfUse = 5, f_speed = 4, f_satisfaction = 4, f_comments = ''better'',
       f_submittedAt = ''h4''\<rparr>] \<and>
   filter (\<lambda>e. f_userId e = ''u1'')
     (feedback (fold submitFeedback [feedback1, feedback2] world0)) =
     [\<lparr>f_id = ''h3'', f_userId = ''u1'', f_userName = ''Ada'', f_role = ''student'',
       f_easeOfUse = 5, f_speed = 4, f_satisfaction = 4, f_comments = ''better'',
       f_submittedAt = ''h4''\<rparr>]"
proof -
  let ?w1 = "submitFeedback feedback1 world0"
  have h: "\<forall>g\<in>set []. ff_userId g \<noteq> ff_userId feedback2" by simp
  have w1: "feedback ?w1 =
      [\<lparr>f_id = ''h1'', f_userId = ''u1'', f_userName = ''Ada'', f_role = ''student'',
        f_easeOfUse = 3, f_speed = 3, f_satisfaction = 3, f_comments = ''ok'',
        f_submittedAt = ''h2''\<rparr>]"
    by (simp add: submitFeedback_feedback world0_fields host0_values feedback1_fields)
  have t: "tick ?w1 = 3" "env ?w1 = host0"
    by (simp_all add: submitFeedback_frame world0_fields)
  have v: "host0 3 = ''h3''" "host0 4 = ''h4''"
    by (simp_all add: host0_def digits.simps digit_char_def)
  have all: "feedback (submitFeedback feedback2 ?w1) =
     [\<lparr>f_id = ''h3'', f_userId = ''u1'', f_userName = ''Ada'', f_role = ''student'',
       f_easeOfUse = 5, f_speed = 4, f_satisfaction = 4, f_comments = ''better'',
       f_submittedAt = ''h4''\<rparr>]"
    by (simp add: submitFeedback_feedback [of feedback2] w1 t v feedback2_fields)
  from submitFeedback_one_per_user [OF reachable_world0 h, of "[feedback1]"]
  show ?thesis
    using reachable_world0 all by (simp add: host_simps t v feedback2_fields)
qed

subsection \<open>Profiles\<close>

lemma find_Some_holds: "find P xs = Some x \<Longrightarrow> P x"
  by (induction xs) (auto split: if_splits)

lemma studentFullProfile_id:
  assumes "find (\<lambda>st. s_id st = studentId) (students w) = Some s"
  shows "\<exists>p. studentFullProfile studentId w = Some p \<and>
    p ''id'' = Some (if getUserById (s_userId s) w = None then s_id s else s_userId s)"
  using assms
  by (auto simp: studentFullProfile_def spread_def student_object_def user_object_def
      map_add_def getUserById_def dest: find_Some_holds split: option.splits)

lemma lecturerFullProfile_id:
  assumes "find (\<lambda>lt. l_id lt = lecturerId) (lecturers w) = Some l"
  shows "\<exists>p. lecturerFullProfile lecturerId w = Some p \<and>
    p ''id'' = Some (if getUserById (l_userId l) w = None then l_id l else l_userId l)"
  using assms
  by (auto simp: lecturerFullProfile_def spread_def lecturer_object_def user_object_def
      map_add_def getUserById_def dest: find_Some_holds split: option.splits)

lemma reachable_studentFullProfile_id:
  assumes "reachable w" and "find (\<lambda>st. s_id st = studentId) (students w) = Some s"
  shows "\<exists>p. studentFullProfile studentId w = Some p \<and> p ''id'' = Some (s_userId s)"
proof -
  from assms(2) have "s \<in> set (students w)" by (auto simp: find_Some_iff)
  with reachable_consistent [OF assms(1)] have "s_userId s \<in> set (map u_id (users w))"
    by (simp add: consistent_def list_all_iff)
  then have "getUserById (s_userId s) w \<noteq> None"
    by (auto simp: getUserById_def find_None_iff)
  with studentFullProfile_id [OF assms(2)] show ?thesis by simp
qed

lemma reachable_lecturerFullProfile_id:
  assumes "reachable w" and "find (\<lambda>lt. l_id lt = lecturerId) (lecturers w) = Some l"
  shows "\<exists>p. lecturerFullProfile lecturerId w = Some p \<and> p ''id'' = Some (l_userId l)"
proof -
  from assms(2) have "l \<in> set (lecturers w)" by (auto simp: find_Some_iff)
  with reachable_consistent [OF assms(1)] have "l_userId l \<in> set (map u_id (users w))"
    by (simp add: consistent_def list_all_iff)
  then have "getUserById (l_userId l) w \<noteq> None"
    by (auto simp: getUserById_def find_None_iff)
  with lecturerFullProfile_id [OF assms(2)] show ?thesis by simp
qed

lemma actor0_fields:
  "u_id actor0 = ''admin_001''" "u_username actor0 = ''admin''"
  "u_name actor0 = ''Portal Administrator''" "u_role actor0 = ''admin''"
  by (simp_all add: actor0_def)

lemma world_student_fields:
  "users world_student = [actor0,
      \<lparr>u_id = ''h1'', u_username = ''s1'', u_password = ''pw'', u_role = ''student'',
        u_name = ''Ada'', u_email = ''s1@noun.edu.ng'', u_phone = [], u_createdAt = ''h2''\<rparr>]"
  "students world_student = [\<lparr>s_id = ''h3'', s_userId = ''h1'', s_matric = ''M1'',
        s_department = ''CS'', s_level = ''100'', s_studyCenter = ''Main Campus''\<rparr>]"
  by (simp_all add: world_student_def addStudent_def host_simps Let_def world0_fields
      fields1_def host0_values or_else_def actor0_fields)

lemma world_lecturer_fields:
  "users world_lecturer = [actor0,
      \<lparr>u_id = ''h1'', u_username = ''l1'', u_password = ''pw'', u_role = ''lecturer'',
        u_name = ''Grace'', u_email = ''l1@noun.edu.ng'', u_phone = [], u_createdAt = ''h2''\<rparr>]"
  "lecturers world_lecturer = [\<lparr>l_id = ''h3'', l_userId = ''h1'', l_staffId = ''ST1'',
        l_department = ''CS''\<rparr>]"
  by (simp_all add: world_lecturer_def addLecturer_def host_simps Let_def world0_fields
      lfields1_def host0_values or_else_def actor0_fields)

text \<open>
  Claim C3. The claim is that the \<open>id\<close> of the record that \<open>studentFullProfile\<close>
  (\<open>lecturerFullProfile\<close>) returns is the id of the student (the lecturer). The functions
  spread the user over the student, so the \<open>id\<close> is the user's: for the student \<open>h3\<close> of
  the user \<open>h1\<close> the profile has the \<open>id\<close> \<open>h1\<close>, and so for the lecturer, while
  \<open>allStudentsWithProfiles\<close> and \<open>allLecturersWithProfiles\<close>, which spread in the other
  order, give \<open>h3\<close>.
\<close>

theorem fullProfile_id_is_user_id:
  "map s_id (students world_student) = [''h3''] \<and>
   (\<exists>p. studentFullProfile ''h3'' world_student = Some p \<and> p ''id'' = Some ''h1'' \<and>
        p ''studentId'' = Some ''h3'') \<and>
   map (\<lambda>p. p ''id'') (allStudentsWithProfiles world_student) = [Some ''h3''] \<and>
   map l_id (lecturers world_lecturer) = [''h3''] \<and>
   (\<exists>p. lecturerFullProfile ''h3'' world_lecturer = Some p \<and> p ''id'' = Some ''h1'' \<and>
        p ''lecturerId'' = Some ''h3'') \<and>
   map (\<lambda>p. p ''id'') (allLecturersWithProfiles world_lecturer) = [Some ''h3'']"
  by (simp add: world_student_fields world_lecturer_fields studentFullProfile_def
      lecturerFullProfile_def allStudentsWithProfiles_def allLecturersWithProfiles_def
      getUserById_def actor0_fields spread_def student_object_def lecturer_object_def
      user_object_def map_add_def)

subsection \<open>Grade thresholds\<close>

lemma js_ge_Num: "js_ge s (Num y) = (case s of NaN \<Rightarrow> False | PosInf \<Rightarrow> True | NegInf \<Rightarrow> False | Num x \<Rightarrow> y \<le> x)"
  by (cases s) simp_all

lemma js_lt_Num: "js_lt s (Num y) = (case s of NaN \<Rightarrow> False | PosInf \<Rightarrow> False | NegInf \<Rightarrow> True | Num x \<Rightarrow> x < y)"
  by (cases s) simp_all

lemma js_lt_Num_left: "js_lt (Num y) s = (case s of NaN \<Rightarrow> False | PosInf \<Rightarrow> True | NegInf \<Rightarrow> False | Num x \<Rightarrow> y < x)"
  by (cases s) simp_all

text \<open>
  Claim C4, as stated: \<open>scoreToGrade s\<close> is \<open>F\<close> exactly when \<open>s < 40\<close>, for every number
  \<open>s\<close>. \<open>NaN\<close> is a number of the language, no comparison holds of it, and the code
  answers \<open>F\<close>: the grade is \<open>F\<close> and \<open>NaN < 40\<close> is false.
\<close>

theorem scoreToGrade_NaN_counterexample:
  "scoreToGrade NaN = ''F'' \<and> \<not> js_lt NaN (Num 40)"
  by (simp add: scoreToGrade_def)

text \<open>
  Claim C4, amended. For every number \<open>s\<close>, \<open>NaN\<close> and the infinities included,
  \<open>scoreToGrade s\<close> is \<open>A\<close> exactly when \<open>s \<ge> 70\<close>, \<open>B\<close> exactly when \<open>60 \<le> s < 70\<close>, \<open>C\<close>
  exactly when \<open>50 \<le> s < 60\<close>, \<open>D\<close> exactly when \<open>40 \<le> s < 50\<close>, and \<open>F\<close> exactly when
  \<open>s < 40\<close> or \<open>s\<close> is \<open>NaN\<close>. There is no upper bound: every \<open>s\<close> above 100 is an \<open>A\<close>.
\<close>

theorem scoreToGrade_thresholds_and_NaN:
  "(scoreToGrade s = ''A'' \<longleftrightarrow> js_ge s (Num 70)) \<and>
   (scoreToGrade s = ''B'' \<longleftrightarrow> js_ge s (Num 60) \<and> js_lt s (Num 70)) \<and>
   (scoreToGrade s = ''C'' \<longleftrightarrow> js_ge s (Num 50) \<and> js_lt s (Num 60)) \<and>
   (scoreToGrade s = ''D'' \<longleftrightarrow> js_ge s (Num 40) \<and> js_lt s (Num 50)) \<and>
   (scoreToGrade s = ''F'' \<longleftrightarrow> js_lt s (Num 40) \<or> s = NaN) \<and>
   (js_lt (Num 100) s \<longrightarrow> scoreToGrade s = ''A'')"
  by (cases s) (auto simp: scoreToGrade_def)

theorem scoreToGrade_thresholds_and_NaN_witness:
  "js_lt (Num 100) (Num 101) \<and> scoreToGrade (Num 101) = ''A'' \<and>
   js_lt (Num 100) PosInf \<and> scoreToGrade PosInf = ''A'' \<and>
   scoreToGrade (Num 70) = ''A'' \<and> scoreToGrade (Num (139 / 2)) = ''B'' \<and>
   scoreToGrade (Num 55) = ''C'' \<and> scoreToGrade (Num 40) = ''D'' \<and>
   scoreToGrade (Num (- 3)) = ''F'' \<and> scoreToGrade NegInf = ''F'' \<and>
   scoreToGrade NaN = ''F''"
  using scoreToGrade_thresholds_and_NaN [of "Num 101"] scoreToGrade_thresholds_and_NaN [of PosInf]
    scoreToGrade_thresholds_and_NaN [of "Num 70"] scoreToGrade_thresholds_and_NaN [of "Num (139 / 2)"]
    scoreToGrade_thresholds_and_NaN [of "Num 55"] scoreToGrade_thresholds_and_NaN [of "Num 40"]
    scoreToGrade_thresholds_and_NaN [of "Num (- 3)"] scoreToGrade_thresholds_and_NaN [of NegInf]
    scoreToGrade_thresholds_and_NaN [of NaN]
  by simp

subsection \<open>The binary64 numbers\<close>

lemma bitlen_int:
  "0 < n \<Longrightarrow> 1 \<le> bitlen n \<and> 2 ^ nat (bitlen n - 1) \<le> n \<and> n < 2 ^ nat (bitlen n)"
proof (induction n rule: bitlen.induct)
  case (1 n)
  show ?case
  proof (cases "n = 1")
    case True
    have "bitlen (1 div 2) = 0" by (subst bitlen.simps) simp
    then have "bitlen 1 = 1" by (subst bitlen.simps) simp
    with True show ?thesis by simp
  next
    case False
    with "1.prems" have h: "0 < n div 2" by simp
    define m where "m = n div 2"
    define k where "k = nat (bitlen m - 1)"
    have b: "bitlen n = 1 + bitlen m"
      using "1.prems" unfolding m_def by (subst bitlen.simps) simp
    from "1.IH" h "1.prems"
    have IH: "1 \<le> bitlen m" "2 ^ nat (bitlen m - 1) \<le> m" "m < 2 ^ nat (bitlen m)"
      unfolding m_def by simp_all
    have e1: "nat (bitlen m) = Suc k" using IH(1) by (simp add: k_def)
    have e2: "nat (bitlen n - 1) = Suc k" "nat (bitlen n) = Suc (Suc k)"
      using IH(1) by (simp_all add: b k_def)
    have lo: "2 * m \<le> n" and hi: "n < 2 * (m + 1)"
      unfolding m_def by presburger+
    from IH(2) have "(2::int) ^ k \<le> m" by (simp add: k_def)
    with lo have 1: "(2::int) ^ Suc k \<le> n" by simp
    from IH(3) have "m + 1 \<le> (2::int) ^ Suc k" by (simp add: e1)
    with hi have 2: "n < (2::int) ^ Suc (Suc k)" by simp
    have "1 \<le> bitlen n" using IH(1) b by simp
    with 1 2 show ?thesis unfolding e2 by simp
  qed
qed

lemma bitlen_bounds:
  assumes "0 < n"
  shows "(2::rat) powi (bitlen n - 1) \<le> of_int n" "(of_int n :: rat) < 2 powi (bitlen n)"
proof -
  from bitlen_int [OF assms]
  have b: "1 \<le> bitlen n" "2 ^ nat (bitlen n - 1) \<le> n" "n < 2 ^ nat (bitlen n)" by simp_all
  have "(of_int (2 ^ nat (bitlen n - 1)) :: rat) \<le> of_int n"
    using b(2) by (simp only: of_int_le_iff)
  then show "(2::rat) powi (bitlen n - 1) \<le> of_int n"
    using b(1) by (simp add: power_int_def)
  have "(of_int n :: rat) < of_int (2 ^ nat (bitlen n))"
    using b(3) by (simp only: of_int_less_iff)
  then show "(of_int n :: rat) < 2 powi (bitlen n)"
    using b(1) by (simp add: power_int_def)
qed

lemma exponent_bounds:
  assumes "0 < x"
  shows "2 powi (exponent x) \<le> x" "x < 2 powi (exponent x + 1)"
proof -
  obtain a b where q: "quotient_of x = (a, b)" by (cases "quotient_of x")
  then have b: "0 < b" and x: "x = of_int a / of_int b"
    using quotient_of_denom_pos quotient_of_div by blast+
  with assms have a: "0 < a"
    by (simp add: zero_less_divide_iff)
  let ?e = "bitlen a - bitlen b"
  note ba = bitlen_bounds [OF a] and bb = bitlen_bounds [OF b]
  have pb: "(0::rat) < of_int b" using b by simp
  have "(2::rat) powi (?e - 1) = 2 powi (bitlen a - 1) / 2 powi (bitlen b)"
    by (simp add: power_int_diff)
  also have "\<dots> \<le> of_int a / of_int b"
    using ba(1) bb(2) pb a by (intro frac_le) simp_all
  finally have low: "2 powi (?e - 1) \<le> x" by (simp add: x)
  have "of_int a / of_int b < (2::rat) powi (bitlen a) / 2 powi (bitlen b - 1)"
    using ba(2) bb(1) pb a by (intro frac_less) simp_all
  also have "\<dots> = 2 powi (?e + 1)"
  proof -
    have eq: "?e + 1 = bitlen a - (bitlen b - 1)" by simp
    show ?thesis unfolding eq by (rule power_int_diff [symmetric]) simp
  qed
  finally have up: "x < 2 powi (?e + 1)" by (simp add: x)
  show "2 powi (exponent x) \<le> x" "x < 2 powi (exponent x + 1)"
    using low up by (auto simp: exponent_def q Let_def)
qed

lemma exponent_less:
  assumes "0 < x" and "x < 2 powi k"
  shows "exponent x < k"
proof (rule ccontr)
  assume "\<not> exponent x < k"
  then have "k \<le> exponent x" by simp
  then have "(2::rat) powi k \<le> 2 powi (exponent x)"
    by (intro power_int_increasing) simp_all
  with exponent_bounds(1) [OF assms(1)] assms(2) show False by simp
qed

lemma exponent_ge:
  assumes "0 < x" and "2 powi k \<le> x"
  shows "k \<le> exponent x"
proof (rule ccontr)
  assume "\<not> k \<le> exponent x"
  then have "exponent x + 1 \<le> k" by simp
  then have "(2::rat) powi (exponent x + 1) \<le> 2 powi k"
    by (intro power_int_increasing) simp_all
  with exponent_bounds(2) [OF assms(1)] assms(2) show False by simp
qed

lemma round_even_close: "\<bar>of_int (round_even x) - x\<bar> \<le> 1 / 2"
proof -
  have a: "of_int \<lfloor>x\<rfloor> \<le> x" by (rule of_int_floor_le)
  have b: "x < of_int \<lfloor>x\<rfloor> + 1" using floor_correct [of x] by simp
  show ?thesis
    using a b by (auto simp: round_even_def Let_def abs_le_iff)
qed

lemma round_even_int: "round_even (of_int n) = n"
  by (simp add: round_even_def)

text \<open>In the normal range the rounding is off by at most the \<open>2 ^ 53\<close>-th part.\<close>

lemma binary64_error:
  assumes "2 powi (- 1022) \<le> \<bar>x\<bar>"
  shows "\<bar>binary64 x - x\<bar> \<le> \<bar>x\<bar> / 2 ^ 53"
proof -
  have pos: "0 < \<bar>x\<bar>"
  proof -
    have "(0::rat) < 2 powi (- 1022)" by simp
    with assms show ?thesis by linarith
  qed
  then have nz: "x \<noteq> 0" by simp
  have e: "- 1022 \<le> exponent \<bar>x\<bar>" using pos assms by (rule exponent_ge)
  define ulp :: rat where "ulp = 2 powi (exponent \<bar>x\<bar> - 52)"
  have ulp: "0 < ulp" by (simp add: ulp_def)
  have "binary64 x = of_int (round_even (x / ulp)) * ulp"
    using nz e by (simp add: binary64_def ulp_def Let_def max_def)
  then have "binary64 x - x = (of_int (round_even (x / ulp)) - x / ulp) * ulp"
    using ulp by (simp add: algebra_simps)
  then have "\<bar>binary64 x - x\<bar> = \<bar>of_int (round_even (x / ulp)) - x / ulp\<bar> * ulp"
    using ulp by (simp add: abs_mult)
  also have "\<dots> \<le> 1 / 2 * ulp"
    using round_even_close [of "x / ulp"] ulp by (intro mult_right_mono) simp_all
  also have "\<dots> = 2 powi (exponent \<bar>x\<bar>) / 2 ^ 53"
    by (simp add: ulp_def power_int_diff)
  also have "\<dots> \<le> \<bar>x\<bar> / 2 ^ 53"
    using exponent_bounds(1) [OF pos] by (intro divide_right_mono) simp_all
  finally show ?thesis .
qed

text \<open>An integer of magnitude up to \<open>2 ^ 53\<close> is a binary64 number.\<close>

lemma binary64_int:
  assumes "\<bar>n\<bar> \<le> 2 ^ 53"
  shows "binary64 (of_int n) = of_int n"
proof (cases "n = 0")
  case True
  then show ?thesis by (simp add: binary64_def)
next
  case False
  define x :: rat where "x = of_int n"
  define e where "e = exponent \<bar>x\<bar>"
  have pos: "0 < \<bar>x\<bar>" using False by (simp add: x_def)
  have "(1::rat) \<le> \<bar>x\<bar>"
  proof -
    have "1 \<le> \<bar>n\<bar>" using False by simp
    then have "(of_int 1 :: rat) \<le> of_int \<bar>n\<bar>" by (simp only: of_int_le_iff)
    then show ?thesis by (simp add: x_def)
  qed
  then have "2 powi 0 \<le> \<bar>x\<bar>" by simp
  with pos have e0: "0 \<le> e" unfolding e_def by (rule exponent_ge)
  have le: "\<bar>x\<bar> \<le> 2 ^ 53"
  proof -
    have "(of_int \<bar>n\<bar> :: rat) \<le> of_int (2 ^ 53)" using assms by (simp only: of_int_le_iff)
    then show ?thesis by (simp add: x_def)
  qed
  have "\<bar>x\<bar> < 2 powi 54"
  proof -
    have "(2::rat) ^ 53 < 2 powi 54" by simp
    with le show ?thesis by linarith
  qed
  with pos have e53: "e \<le> 53" unfolding e_def using exponent_less by fastforce
  define ulp :: rat where "ulp = 2 powi (e - 52)"
  have b: "binary64 x = of_int (round_even (x / ulp)) * ulp"
    using pos e0 by (simp add: binary64_def ulp_def e_def Let_def max_def)
  have "\<exists>k. x / ulp = of_int k"
  proof (cases "e \<le> 52")
    case True
    then have "x / ulp = x * 2 ^ nat (52 - e)"
      by (simp add: ulp_def power_int_def field_simps)
    then have "x / ulp = of_int (n * 2 ^ nat (52 - e))" by (simp add: x_def)
    then show ?thesis by blast
  next
    case False
    with e53 have e: "e = 53" by simp
    then have "2 powi 53 \<le> \<bar>x\<bar>" using exponent_bounds(1) [OF pos] by (simp add: e_def)
    with le have "\<bar>x\<bar> = 2 ^ 53" by simp
    then have "x = 2 ^ 53 \<or> x = - (2 ^ 53)" by (simp add: abs_if split: if_splits)
    then have "x / ulp = of_int (2 ^ 52) \<or> x / ulp = of_int (- (2 ^ 52))"
      by (auto simp: ulp_def e)
    then show ?thesis by blast
  qed
  then obtain k where k: "x / ulp = of_int k" by blast
  have "ulp \<noteq> 0" by (simp add: ulp_def)
  with k have "x = of_int k * ulp" by (simp add: field_simps)
  with b k show ?thesis by (simp add: round_even_int x_def)
qed

lemma to_double_Num:
  assumes "\<bar>binary64 x\<bar> < 2 ^ 1024"
  shows "to_double x = Num (binary64 x)"
proof (cases "binary64 x = 0")
  case True
  then show ?thesis by (simp add: to_double_def)
next
  case False
  then have "0 < \<bar>binary64 x\<bar>" by simp
  moreover have "\<bar>binary64 x\<bar> < 2 powi 1024" using assms by simp
  ultimately have "exponent \<bar>binary64 x\<bar> < 1024" by (rule exponent_less)
  then show ?thesis by (simp add: to_double_def Let_def)
qed

lemma to_double_int:
  assumes "\<bar>n\<bar> \<le> 2 ^ 53"
  shows "to_double (of_int n) = Num (of_int n)"
proof -
  have "(of_int \<bar>n\<bar> :: rat) \<le> of_int (2 ^ 53)" using assms by (simp only: of_int_le_iff)
  then have "\<bar>of_int n :: rat\<bar> \<le> 2 ^ 53" by simp
  moreover have "(2::rat) ^ 53 < 2 ^ 1024" by simp
  ultimately have "\<bar>binary64 (of_int n)\<bar> < 2 ^ 1024"
    by (simp add: binary64_int [OF assms] del: of_int_abs)
  from to_double_Num [OF this] show ?thesis by (simp add: binary64_int [OF assms])
qed

subsection \<open>Adding a course\<close>

lemma to_double_numeral [simp]:
  "numeral k \<le> (2::int) ^ 53 \<Longrightarrow> to_double (numeral k) = Num (numeral k)"
  "numeral k \<le> (2::int) ^ 53 \<Longrightarrow> to_double (- numeral k) = Num (- numeral k)"
  "to_double 0 = Num 0" "to_double 1 = Num 1"
  using to_double_int [of "numeral k"] to_double_int [of "- numeral k"] to_double_int [of 0]
    to_double_int [of 1]
  by simp_all

lemmas parseInt_simps =
  parseInt_def is_space_def wide_spaces_def is_digit_def digit_value_def digits_value_def

lemma parseInt_examples:
  "parseInt ''3'' = Num 3" "parseInt ''  12abc'' = Num 12" "parseInt ''-4'' = Num (- 4)"
  "parseInt ''0x1F'' = Num 31" "parseInt ''abc'' = NaN" "parseInt [] = NaN"
  "parseInt ''2.9'' = Num 2" "parseInt ''+7'' = Num 7" "parseInt ''0'' = Num 0"
  "parseInt ''2'' = Num 2" "parseInt ''-3'' = Num (- 3)" "parseInt ''1'' = Num 1"
  "parseInt ([CHR 0xC2, CHR 0xA0, CHR 0xEF, CHR 0xBB, CHR 0xBF, CHR 0xE2, CHR 0x80, CHR 0xA8]
     @ ''5'') = Num 5"
  by (simp_all add: parseInt_simps)

lemma addCourse_units:
  "find (\<lambda>c. c_code c = cf_code f) (courses w) = None \<Longrightarrow>
   \<exists>c. courses (snd (addCourse f w)) = courses w @ [c] \<and> fst (addCourse f w) = Inr (c_id c) \<and>
       c_code c = cf_code f \<and>
       c_units c =
         to_json (if parseInt (cf_units f) = NaN \<or> parseInt (cf_units f) = Num 0 then Num 3
                  else parseInt (cf_units f))"
  by (simp add: addCourse_def host_simps Let_def units_or_3_def truthy_def)

text \<open>
  Claim C9. The claim is that \<open>addCourse\<close> stores the units parsed as an integer whenever
  they parse to a non-negative integer, \<open>0\<close> included. The units \<open>"0"\<close> parse to \<open>0\<close>, the
  code is new, and the course is stored with \<open>3\<close> units.
\<close>

theorem addCourse_zero_units_stored_as_3:
  "parseInt (cf_units cfields0) = Num 0 \<and>
   find (\<lambda>c. c_code c = cf_code cfields0) (courses world0) = None \<and>
   courses (snd (addCourse cfields0 world0)) =
     [\<lparr>c_id = ''h1'', c_code = ''GST100'', c_title = ''Orientation'', c_units = Some 3,
       c_lecturerId = []\<rparr>]"
  by (simp add: addCourse_def host_simps Let_def units_or_3_def truthy_def to_json_def
      world0_fields cfields0_def host0_values or_else_def parseInt_examples)

subsection \<open>Numbers in decimal\<close>

lemma digits_small: "n < 10 \<Longrightarrow> digits n = [digit_char n]"
  by (simp add: digits.simps)

lemma digits_step: "10 \<le> n \<Longrightarrow> digits n = digits (n div 10) @ [digit_char (n mod 10)]"
  by (subst digits.simps) simp

lemma digits_two:
  "10 \<le> n \<Longrightarrow> n < 100 \<Longrightarrow> digits n = [digit_char (n div 10), digit_char (n mod 10)]"
  by (simp add: digits_step digits_small)

lemma digits_hundreds:
  assumes "100 \<le> n"
  shows "digits n = digits (n div 100) @ [digit_char (n div 10 mod 10), digit_char (n mod 10)]"
proof -
  have "10 \<le> n div 10" using assms by simp
  then have "digits (n div 10) = digits (n div 10 div 10) @ [digit_char (n div 10 mod 10)]"
    by (rule digits_step)
  moreover have "n div 10 div 10 = n div 100" by simp
  ultimately show ?thesis using assms by (simp add: digits_step)
qed

lemma length_digits_pos: "0 < length (digits n)"
  by (subst digits.simps) simp

lemma toFixed_2_digits:
  assumes nn: "\<lfloor>(if x < 0 then - x else x) * 10 ^ 2 + 1 / 2\<rfloor> = n"
    and small: "\<not> 10 ^ 21 \<le> (if x < 0 then - x else x)"
    and n0: "0 \<le> n"
  shows "toFixed 2 (Num x) =
     (if x < 0 then ''-'' else []) @
     digits (n div 100) @ ''.'' @ [digit_char (n div 10 mod 10), digit_char (n mod 10)]"
proof -
  consider "n < 10" | "10 \<le> n" "n < 100" | "100 \<le> n" by linarith
  then show ?thesis
  proof cases
    case 1
    then have "digits n = [digit_char n]" "digits 0 = ''0''" "digit_char 0 = CHR ''0''"
      "n div 100 = 0" "n div 10 = 0"
      using n0 by (simp_all add: digits_small digit_char_def)
    with 1 n0 show ?thesis
      unfolding toFixed_def Let_def number.case nn if_not_P [OF small]
      by (simp add: numeral_3_eq_3 numeral_2_eq_2)
  next
    case 2
    then have "digits n = [digit_char (n div 10), digit_char (n mod 10)]" "digits 0 = ''0''"
      "n div 100 = 0" "n div 10 < 10"
      by (simp_all add: digits_two digits_small digit_char_def)
    with 2 show ?thesis
      unfolding toFixed_def Let_def number.case nn if_not_P [OF small]
      by simp
  next
    case 3
    then have "digits n = digits (n div 100) @ [digit_char (n div 10 mod 10), digit_char (n mod 10)]"
      by (rule digits_hundreds)
    with 3 length_digits_pos [of "n div 100"] show ?thesis
      unfolding toFixed_def Let_def number.case nn if_not_P [OF small]
      by simp
  qed
qed

lemma toFixed_2_form:
  assumes "\<bar>x\<bar> < 10 ^ 21"
  shows "toFixed 2 (Num x) =
     (if x < 0 then ''-'' else []) @
     digits (\<lfloor>\<bar>x\<bar> * 100 + 1 / 2\<rfloor> div 100) @ ''.'' @
     [digit_char (\<lfloor>\<bar>x\<bar> * 100 + 1 / 2\<rfloor> div 10 mod 10),
      digit_char (\<lfloor>\<bar>x\<bar> * 100 + 1 / 2\<rfloor> mod 10)]"
proof -
  have a: "(if x < 0 then - x else x) = \<bar>x\<bar>" by simp
  have "\<lfloor>(if x < 0 then - x else x) * 10 ^ 2 + 1 / 2\<rfloor> = \<lfloor>\<bar>x\<bar> * 100 + 1 / 2\<rfloor>"
    unfolding a by simp
  moreover have "\<not> 10 ^ 21 \<le> (if x < 0 then - x else x)"
    unfolding a using assms by simp
  moreover have "0 \<le> \<lfloor>\<bar>x\<bar> * 100 + 1 / 2\<rfloor>" by simp
  ultimately show ?thesis by (rule toFixed_2_digits)
qed

lemma round_half_up_close:
  fixes y :: rat
  shows "\<bar>of_int \<lfloor>y + 1 / 2\<rfloor> - y\<bar> \<le> 1 / 2"
proof -
  have a: "of_int \<lfloor>y + 1 / 2\<rfloor> \<le> y + 1 / 2" by (rule of_int_floor_le)
  have b: "y + 1 / 2 < of_int \<lfloor>y + 1 / 2\<rfloor> + 1"
    using floor_correct [of "y + 1 / 2"] by simp
  show ?thesis unfolding abs_le_iff using a b by linarith
qed

lemma toFixed_2_close:
  assumes "\<bar>x\<bar> < 10 ^ 21"
  shows "\<exists>n\<ge>0. toFixed 2 (Num x) =
         (if x < 0 then ''-'' else []) @ digits (n div 100) @ ''.'' @
         [digit_char (n div 10 mod 10), digit_char (n mod 10)] \<and>
       \<bar>of_int n / 100 - \<bar>x\<bar>\<bar> \<le> 1 / 200"
proof -
  let ?n = "\<lfloor>\<bar>x\<bar> * 100 + 1 / 2\<rfloor>"
  have h: "\<bar>of_int ?n - \<bar>x\<bar> * 100\<bar> \<le> 1 / 2"
    by (rule round_half_up_close)
  have "of_int ?n / 100 - \<bar>x\<bar> = (of_int ?n - \<bar>x\<bar> * 100) / 100" by simp
  then have "\<bar>of_int ?n / 100 - \<bar>x\<bar>\<bar> = \<bar>of_int ?n - \<bar>x\<bar> * 100\<bar> / 100"
    by (simp only: abs_divide) simp
  with h have "\<bar>of_int ?n / 100 - \<bar>x\<bar>\<bar> \<le> 1 / 200" by linarith
  moreover have "0 \<le> ?n" by simp
  ultimately show ?thesis using toFixed_2_form [OF assms] by blast
qed

subsection \<open>The loop of the GPA\<close>

lemma gp_or_0_points:
  "g \<notin> set Object_prototype_keys \<Longrightarrow> gp_or_0 g = Num (of_int (spec_grade_point g))"
  by (simp add: gp_or_0_def gp_def spec_grade_point_def)

lemma gp_or_0_inherited: "g \<in> set Object_prototype_keys \<Longrightarrow> gp_or_0 g = NaN"
  by (auto simp: gp_or_0_def gp_def Object_prototype_keys_def)


lemma spec_grade_point_range: "0 \<le> spec_grade_point g" "spec_grade_point g \<le> 5"
  by (simp_all add: spec_grade_point_def)

lemma gpa_step_units:
  "gpa_step w r (pts, units) =
     (js_add pts (js_mul (gp_or_0 (r_grade r)) (Num (course_units w r))),
      js_add units (Num (course_units w r)))"
  by (simp add: gpa_step_def course_units_def getCourseById_def to_number_def Let_def
      split: option.splits)

lemma points_bound: "\<bar>spec_grade_point g * n\<bar> \<le> 5 * \<bar>n\<bar>"
proof -
  have "\<bar>spec_grade_point g * n\<bar> = spec_grade_point g * \<bar>n\<bar>"
    using spec_grade_point_range(1) [of g] by (simp add: abs_mult)
  also have "\<dots> \<le> 5 * \<bar>n\<bar>"
    using spec_grade_point_range(2) [of g] by (intro mult_right_mono) simp_all
  finally show ?thesis .
qed

lemma gpa_step_exact:
  assumes g: "r_grade r \<notin> set Object_prototype_keys"
    and u: "course_units w r = of_int n"
    and p: "\<bar>p\<bar> + 5 * \<bar>n\<bar> \<le> 2 ^ 53"
    and q: "\<bar>q\<bar> + \<bar>n\<bar> \<le> 2 ^ 53"
  shows "gpa_step w r (Num (of_int p), Num (of_int q)) =
     (Num (of_int (p + spec_grade_point (r_grade r) * n)), Num (of_int (q + n)))"
proof -
  let ?k = "spec_grade_point (r_grade r)"
  have kn: "\<bar>?k * n\<bar> \<le> 5 * \<bar>n\<bar>" by (rule points_bound)
  have 1: "\<bar>?k * n\<bar> \<le> 2 ^ 53" using kn p by linarith
  have 2: "\<bar>p + ?k * n\<bar> \<le> 2 ^ 53" using kn p by linarith
  have 3: "\<bar>q + n\<bar> \<le> 2 ^ 53" using q by linarith
  have m: "js_mul (Num (of_int ?k)) (Num (of_int n)) = Num (of_int (?k * n))"
    using to_double_int [OF 1] by simp
  have a: "js_add (Num (of_int p)) (Num (of_int (?k * n))) = Num (of_int (p + ?k * n))"
    using to_double_int [OF 2] by simp
  have b: "js_add (Num (of_int q)) (Num (of_int n)) = Num (of_int (q + n))"
    using to_double_int [OF 3] by simp
  show ?thesis
    unfolding gpa_step_units gp_or_0_points [OF g] u m a b ..
qed

lemma fold_gpa_step_exact:
  assumes "\<forall>r\<in>set rs. r_grade r \<notin> set Object_prototype_keys"
    and "\<forall>r\<in>set rs. course_units w r \<in> \<int>"
    and "of_int \<bar>p\<bar> + 5 * (\<Sum>r\<leftarrow>rs. \<bar>course_units w r\<bar>) \<le> 2 ^ 53"
    and "of_int \<bar>q\<bar> + (\<Sum>r\<leftarrow>rs. \<bar>course_units w r\<bar>) \<le> 2 ^ 53"
  shows "fold (gpa_step w) rs (Num (of_int p), Num (of_int q)) =
     (Num (of_int p + spec_total_points w rs), Num (of_int q + spec_total_units w rs))"
  using assms
proof (induction rs arbitrary: p q)
  case Nil
  then show ?case by (simp add: spec_total_points_def spec_total_units_def)
next
  case (Cons r rs)
  let ?k = "spec_grade_point (r_grade r)"
  let ?S = "\<Sum>r\<leftarrow>rs. \<bar>course_units w r\<bar>"
  from Cons.prems(2) obtain n where n: "course_units w r = of_int n"
    by (auto elim: Ints_cases)
  have S: "0 \<le> ?S" by (rule sum_list_nonneg) auto
  have pb: "of_int \<bar>p\<bar> + 5 * (of_int \<bar>n\<bar> + ?S) \<le> (2::rat) ^ 53"
    using Cons.prems(3) by (simp add: n)
  have qb: "of_int \<bar>q\<bar> + (of_int \<bar>n\<bar> + ?S) \<le> (2::rat) ^ 53"
    using Cons.prems(4) by (simp add: n)
  have "(of_int (\<bar>p\<bar> + 5 * \<bar>n\<bar>) :: rat) \<le> 2 ^ 53" using pb S by simp
  then have p1: "\<bar>p\<bar> + 5 * \<bar>n\<bar> \<le> 2 ^ 53"
    by (simp only: of_int_le_numeral_power_cancel_iff)
  have "(of_int (\<bar>q\<bar> + \<bar>n\<bar>) :: rat) \<le> 2 ^ 53" using qb S by simp
  then have q1: "\<bar>q\<bar> + \<bar>n\<bar> \<le> 2 ^ 53"
    by (simp only: of_int_le_numeral_power_cancel_iff)
  have g: "r_grade r \<notin> set Object_prototype_keys" using Cons.prems(1) by simp
  have step: "gpa_step w r (Num (of_int p), Num (of_int q)) =
      (Num (of_int (p + ?k * n)), Num (of_int (q + n)))"
    by (rule gpa_step_exact [OF g n p1 q1])
  have "\<bar>p + ?k * n\<bar> \<le> \<bar>p\<bar> + 5 * \<bar>n\<bar>"
    using points_bound [of "r_grade r" n] by linarith
  then have "(of_int \<bar>p + ?k * n\<bar> :: rat) \<le> of_int (\<bar>p\<bar> + 5 * \<bar>n\<bar>)"
    by (simp only: of_int_le_iff)
  then have p2: "of_int \<bar>p + ?k * n\<bar> + 5 * ?S \<le> (2::rat) ^ 53"
    using pb by simp
  have "\<bar>q + n\<bar> \<le> \<bar>q\<bar> + \<bar>n\<bar>" by linarith
  then have "(of_int \<bar>q + n\<bar> :: rat) \<le> of_int (\<bar>q\<bar> + \<bar>n\<bar>)"
    by (simp only: of_int_le_iff)
  then have q2: "of_int \<bar>q + n\<bar> + ?S \<le> (2::rat) ^ 53"
    using qb by simp
  have ih: "fold (gpa_step w) rs (Num (of_int (p + ?k * n)), Num (of_int (q + n))) =
      (Num (of_int (p + ?k * n) + spec_total_points w rs),
       Num (of_int (q + n) + spec_total_units w rs))"
    using Cons.prems(1,2) by (intro Cons.IH [OF _ _ p2 q2]) simp_all
  have e1: "of_int (p + ?k * n) + spec_total_points w rs =
      of_int p + spec_total_points w (r # rs)"
    by (simp add: spec_total_points_def n)
  have e2: "of_int (q + n) + spec_total_units w rs = of_int q + spec_total_units w (r # rs)"
    by (simp add: spec_total_units_def n)
  show ?case
    unfolding fold_simps(2) step ih e1 e2 by (rule refl)
qed

lemma total_units_int:
  "\<forall>r\<in>set rs. course_units w r \<in> \<int> \<Longrightarrow> spec_total_units w rs \<in> \<int>"
  by (induction rs) (simp_all add: spec_total_units_def)

lemma total_points_int:
  "\<forall>r\<in>set rs. course_units w r \<in> \<int> \<Longrightarrow> spec_total_points w rs \<in> \<int>"
  by (induction rs) (simp_all add: spec_total_points_def)

lemma total_units_bound: "\<bar>spec_total_units w rs\<bar> \<le> (\<Sum>r\<leftarrow>rs. \<bar>course_units w r\<bar>)"
  unfolding spec_total_units_def
proof (induction rs)
  case Nil
  then show ?case by simp
next
  case (Cons r rs)
  have "\<bar>course_units w r + sum_list (map (course_units w) rs)\<bar> \<le>
        \<bar>course_units w r\<bar> + \<bar>sum_list (map (course_units w) rs)\<bar>"
    by (rule abs_triangle_ineq)
  with Cons show ?case by simp
qed

lemma total_points_bound:
  "\<bar>spec_total_points w rs\<bar> \<le> 5 * (\<Sum>r\<leftarrow>rs. \<bar>course_units w r\<bar>)"
  unfolding spec_total_points_def
proof (induction rs)
  case Nil
  then show ?case by simp
next
  case (Cons r rs)
  have "\<bar>(of_int (spec_grade_point (r_grade r)) :: rat) * course_units w r\<bar> =
        of_int (spec_grade_point (r_grade r)) * \<bar>course_units w r\<bar>"
    using spec_grade_point_range(1) [of "r_grade r"] by (simp add: abs_mult)
  also have "\<dots> \<le> 5 * \<bar>course_units w r\<bar>"
    using spec_grade_point_range(2) [of "r_grade r"]
    by (intro mult_right_mono) simp_all
  finally show ?case using Cons by simp
qed

lemma binary64_quotient:
  assumes a: "\<bar>a\<bar> \<le> 2 ^ 53" and b: "\<bar>b\<bar> \<le> 2 ^ 53" and b0: "b \<noteq> 0"
  shows "\<bar>binary64 (of_int a / of_int b) - of_int a / of_int b\<bar> \<le> \<bar>of_int a / of_int b\<bar> / 2 ^ 53"
    and "\<bar>binary64 (of_int a / of_int b)\<bar> \<le> 2 ^ 54"
    and "to_double (of_int a / of_int b) = Num (binary64 (of_int a / of_int b))"
proof -
  let ?x = "of_int a / of_int b :: rat"
  have "1 \<le> \<bar>b\<bar>" using b0 by linarith
  then have "(of_int 1 :: rat) \<le> of_int \<bar>b\<bar>" by (simp only: of_int_le_iff)
  then have b1: "(1::rat) \<le> \<bar>of_int b\<bar>" by simp
  have ub: "\<bar>?x\<bar> \<le> 2 ^ 53"
  proof -
    have "\<bar>?x\<bar> = \<bar>of_int a\<bar> / \<bar>of_int b\<bar>" by (simp only: abs_divide)
    also have "\<dots> \<le> \<bar>of_int a\<bar> / 1" using b1 by (intro divide_left_mono) simp_all
    also have "\<dots> \<le> 2 ^ 53" using a by (simp flip: of_int_abs)
    finally show ?thesis .
  qed
  have err: "\<bar>binary64 ?x - ?x\<bar> \<le> \<bar>?x\<bar> / 2 ^ 53"
  proof (cases "a = 0")
    case True
    then show ?thesis by (simp add: binary64_def)
  next
    case False
    then have "1 \<le> \<bar>a\<bar>" by linarith
    then have "(of_int 1 :: rat) \<le> of_int \<bar>a\<bar>" by (simp only: of_int_le_iff)
    then have a1: "(1::rat) \<le> \<bar>of_int a\<bar>" by simp
    have bb: "\<bar>of_int b :: rat\<bar> \<le> 2 ^ 53" using b by (simp flip: of_int_abs)
    have "(2::rat) powi (- 1022) \<le> 1 / 2 ^ 53"
      by (simp add: power_int_minus divide_simps)
    also have "\<dots> \<le> \<bar>of_int a\<bar> / \<bar>of_int b\<bar>"
      using a1 bb b1 by (intro frac_le) simp_all
    also have "\<dots> = \<bar>?x\<bar>" by (simp only: abs_divide)
    finally show ?thesis by (rule binary64_error)
  qed
  show "\<bar>binary64 ?x - ?x\<bar> \<le> \<bar>?x\<bar> / 2 ^ 53" by (rule err)
  have h: "\<bar>?x\<bar> / 2 ^ 53 \<le> \<bar>?x\<bar>" by (simp add: divide_le_eq)
  have "\<bar>binary64 ?x\<bar> \<le> \<bar>binary64 ?x - ?x\<bar> + \<bar>?x\<bar>" by linarith
  also have "\<dots> \<le> \<bar>?x\<bar> + \<bar>?x\<bar>" using err h by linarith
  also have "\<dots> \<le> 2 ^ 53 + 2 ^ 53" using ub by linarith
  also have "\<dots> = 2 ^ 54" by simp
  finally show le: "\<bar>binary64 ?x\<bar> \<le> 2 ^ 54" .
  have "\<bar>binary64 ?x\<bar> < 2 ^ 1024"
    by (rule le_less_trans [OF le]) simp
  then show "to_double ?x = Num (binary64 ?x)" by (rule to_double_Num)
qed

lemma calcGPA_exact:
  assumes g: "\<forall>r\<in>set (getResultsForStudent sid w). r_grade r \<notin> set Object_prototype_keys"
    and u: "\<forall>r\<in>set (getResultsForStudent sid w). course_units w r \<in> \<int>"
    and b: "5 * (\<Sum>r\<leftarrow>getResultsForStudent sid w. \<bar>course_units w r\<bar>) \<le> 2 ^ 53"
  shows "fold (gpa_step w) (getResultsForStudent sid w) (Num 0, Num 0) =
       (Num (spec_total_points w (getResultsForStudent sid w)),
        Num (spec_total_units w (getResultsForStudent sid w)))"
    and "calcGPA sid w =
     (if getResultsForStudent sid w = [] \<or> spec_total_units w (getResultsForStudent sid w) = 0
      then ''0.00''
      else toFixed 2 (Num (binary64 (spec_weighted_average w (getResultsForStudent sid w)))))"
    and "spec_total_units w (getResultsForStudent sid w) \<noteq> 0 \<Longrightarrow>
     \<bar>binary64 (spec_weighted_average w (getResultsForStudent sid w)) -
       spec_weighted_average w (getResultsForStudent sid w)\<bar> \<le>
       \<bar>spec_weighted_average w (getResultsForStudent sid w)\<bar> / 2 ^ 53"
    and "spec_total_units w (getResultsForStudent sid w) \<noteq> 0 \<Longrightarrow>
     \<bar>binary64 (spec_weighted_average w (getResultsForStudent sid w))\<bar> \<le> 2 ^ 54"
proof -
  let ?rs = "getResultsForStudent sid w"
  let ?S = "\<Sum>r\<leftarrow>?rs. \<bar>course_units w r\<bar>"
  have S: "0 \<le> ?S" by (rule sum_list_nonneg) auto
  have b1: "of_int \<bar>0\<bar> + 5 * ?S \<le> (2::rat) ^ 53" using b by simp
  have b2: "of_int \<bar>0\<bar> + ?S \<le> (2::rat) ^ 53" using b S by simp
  show f: "fold (gpa_step w) ?rs (Num 0, Num 0) =
       (Num (spec_total_points w ?rs), Num (spec_total_units w ?rs))"
    using fold_gpa_step_exact [OF g u b1 b2] by simp
  obtain P where P: "spec_total_points w ?rs = of_int P"
    using total_points_int [OF u] by (auto elim: Ints_cases)
  obtain U where U: "spec_total_units w ?rs = of_int U"
    using total_units_int [OF u] by (auto elim: Ints_cases)
  have "(of_int \<bar>P\<bar> :: rat) \<le> 2 ^ 53"
    using total_points_bound [of w ?rs] b by (simp add: P)
  then have Pb: "\<bar>P\<bar> \<le> 2 ^ 53" by (simp only: of_int_le_numeral_power_cancel_iff)
  have "(of_int \<bar>U\<bar> :: rat) \<le> 2 ^ 53"
    using total_units_bound [of w ?rs] b2 by (simp add: U)
  then have Ub: "\<bar>U\<bar> \<le> 2 ^ 53" by (simp only: of_int_le_numeral_power_cancel_iff)
  show "calcGPA sid w =
     (if ?rs = [] \<or> spec_total_units w ?rs = 0 then ''0.00''
      else toFixed 2 (Num (binary64 (spec_weighted_average w ?rs))))"
  proof (cases "U = 0")
    case True
    then show ?thesis by (simp add: calcGPA_def Let_def f U truthy_def)
  next
    case False
    with binary64_quotient(3) [OF Pb Ub] show ?thesis
      by (simp add: calcGPA_def Let_def f U P truthy_def spec_weighted_average_def)
  qed
  show "\<bar>binary64 (spec_weighted_average w ?rs) - spec_weighted_average w ?rs\<bar> \<le>
       \<bar>spec_weighted_average w ?rs\<bar> / 2 ^ 53" if "spec_total_units w ?rs \<noteq> 0"
    using that binary64_quotient(1) [OF Pb Ub] by (simp add: spec_weighted_average_def U P)
  show "\<bar>binary64 (spec_weighted_average w ?rs)\<bar> \<le> 2 ^ 54" if "spec_total_units w ?rs \<noteq> 0"
    using that binary64_quotient(2) [OF Pb Ub] by (simp add: spec_weighted_average_def U P)
qed

subsection \<open>The GPA of the example stores\<close>

lemma addCourse_courses:
  "courses (snd (addCourse f w)) =
     (if \<exists>c\<in>set (courses w). c_code c = cf_code f then courses w
      else courses w @
        [\<lparr>c_id = env w (tick w), c_code = cf_code f, c_title = cf_title f,
          c_units = to_json (units_or_3 (parseInt (cf_units f))),
          c_lecturerId = or_else (cf_lecturerId f) []\<rparr>])"
  "tick (snd (addCourse f w)) =
     (if \<exists>c\<in>set (courses w). c_code c = cf_code f then tick w else Suc (tick w))"
  by (auto simp: addCourse_def host_simps Let_def find_None_iff)

lemma parseInt_big:
  "parseInt ''9007199254740992'' = Num 9007199254740992"
  "parseInt ''-9007199254740992'' = Num (- 9007199254740992)"
  by (simp_all add: parseInt_simps)

lemma stored_units:
  "to_json (units_or_3 (Num 3)) = Some 3" "to_json (units_or_3 (Num 2)) = Some 2"
  "to_json (units_or_3 (Num (- 3))) = Some (- 3)" "to_json (units_or_3 (Num 1)) = Some 1"
  "to_json (units_or_3 (Num 9007199254740992)) = Some 9007199254740992"
  "to_json (units_or_3 (Num (- 9007199254740992))) = Some (- 9007199254740992)"
  by (simp_all add: to_json_def units_or_3_def truthy_def)

lemma world_gpa_courses:
  "courses world_gpa =
     [\<lparr>c_id = ''h1'', c_code = ''CIT101'', c_title = ''Computing'', c_units = Some 3,
       c_lecturerId = []\<rparr>,
      \<lparr>c_id = ''h2'', c_code = ''CIT102'', c_title = ''Software'', c_units = Some 2,
       c_lecturerId = []\<rparr>]"
  by (simp add: world_gpa_def upsertResult_frame addCourse_courses addCourse_frame
      world0_fields cfields3_def cfields2_def parseInt_examples stored_units or_else_def
      host0_values)

lemma world_zero_courses:
  "courses world_zero =
     [\<lparr>c_id = ''h1'', c_code = ''CIT101'', c_title = ''Computing'', c_units = Some 3,
       c_lecturerId = []\<rparr>,
      \<lparr>c_id = ''h2'', c_code = ''CIT102'', c_title = ''Software'', c_units = Some (- 3),
       c_lecturerId = []\<rparr>]"
  by (simp add: world_zero_def upsertResult_frame addCourse_courses addCourse_frame
      world0_fields cfields3_def cfields_neg_def parseInt_examples stored_units or_else_def
      host0_values)

lemma world_big_courses:
  "courses world_big =
     [\<lparr>c_id = ''h1'', c_code = ''BIG1'', c_title = ''Thesis'',
       c_units = Some 9007199254740992, c_lecturerId = []\<rparr>,
      \<lparr>c_id = ''h2'', c_code = ''BIG2'', c_title = ''Seminar'', c_units = Some 1,
       c_lecturerId = []\<rparr>,
      \<lparr>c_id = ''h3'', c_code = ''BIG3'', c_title = ''Waiver'',
       c_units = Some (- 9007199254740992), c_lecturerId = []\<rparr>]"
  by (simp add: world_big_def upsertResult_frame addCourse_courses addCourse_frame
      world0_fields cfields_big_def cfields_one_def cfields_big_neg_def parseInt_examples
      parseInt_big stored_units or_else_def host0_values)

lemma grades_of_scores:
  "scoreToGrade (Num 90) = ''A''" "scoreToGrade (Num 80) = ''A''" "scoreToGrade (Num 75) = ''A''"
  "scoreToGrade (Num 70) = ''A''" "scoreToGrade (Num 65) = ''B''" "scoreToGrade (Num 55) = ''C''"
  by (simp_all add: scoreToGrade_def)

lemma world_gpa_results:
  "map (\<lambda>r. (r_studentId r, r_courseId r, r_grade r)) (results world_gpa) =
     [(''s1'', ''h1'', ''A''), (''s2'', ''h1'', ''B''), (''s1'', ''h2'', ''C'')]"
  by (simp add: world_gpa_def upsertResult_results addCourse_frame world0_fields
      grades_of_scores)

lemma world_zero_results:
  "map (\<lambda>r. (r_studentId r, r_courseId r, r_grade r)) (results world_zero) =
     [(''s1'', ''h1'', ''A''), (''s2'', ''h1'', ''B''), (''s1'', ''h2'', ''A'')]"
  by (simp add: world_zero_def upsertResult_results addCourse_frame world0_fields
      grades_of_scores)

lemma world_big_results:
  "map (\<lambda>r. (r_studentId r, r_courseId r, r_grade r)) (results world_big) =
     [(''s1'', ''h1'', ''A''), (''s1'', ''h2'', ''A''), (''s1'', ''h3'', ''A'')]"
  by (simp add: world_big_def upsertResult_results addCourse_frame world0_fields
      grades_of_scores)

lemma three_results:
  assumes "map (\<lambda>r. (r_studentId r, r_courseId r, r_grade r)) rs =
     [(s1, c1, g1), (s2, c2, g2), (s3, c3, g3)]"
  shows "\<exists>r1 r2 r3. rs = [r1, r2, r3] \<and>
     r_studentId r1 = s1 \<and> r_courseId r1 = c1 \<and> r_grade r1 = g1 \<and>
     r_studentId r2 = s2 \<and> r_courseId r2 = c2 \<and> r_grade r2 = g2 \<and>
     r_studentId r3 = s3 \<and> r_courseId r3 = c3 \<and> r_grade r3 = g3"
  using assms by (auto simp: map_eq_Cons_conv)

lemma binary64_21_5: "binary64 (21 / 5) = 4728779608739021 / 1125899906842624"
  by code_simp

lemma toFixed_values:
  "toFixed 2 (Num (4728779608739021 / 1125899906842624)) = ''4.20''"
  "toFixed 2 (Num 4) = ''4.00''" "toFixed 2 (Num 5) = ''5.00''" "toFixed 2 (Num 3) = ''3.00''"
  by code_simp+

lemma to_double_big:
  "to_double 45035996273704960 = Num 45035996273704960"
  "to_double 45035996273704965 = Num 45035996273704968"
  "to_double 9007199254740993 = Num 9007199254740992"
  "to_double (- 45035996273704960) = Num (- 45035996273704960)"
  by code_simp+

subsection \<open>The GPA\<close>

lemma scoreToGrade_letter: "scoreToGrade s \<in> set [''A'', ''B'', ''C'', ''D'', ''F'']"
  by (simp add: scoreToGrade_def)

lemma letter_not_inherited:
  "g \<in> set [''A'', ''B'', ''C'', ''D'', ''F''] \<Longrightarrow> g \<notin> set Object_prototype_keys"
  by (auto simp: Object_prototype_keys_def)

lemma reachable_grades_not_inherited:
  assumes "reachable w"
  shows "\<forall>r\<in>set (results_of sid w). r_grade r \<notin> set Object_prototype_keys"
proof
  fix r assume "r \<in> set (results_of sid w)"
  then have "r \<in> set (results w)" by simp
  with reachable_consistent [OF assms] have "r_grade r = scoreToGrade (Num (r_score r))"
    by (simp add: consistent_def list_all_iff)
  then show "r_grade r \<notin> set Object_prototype_keys"
    using letter_not_inherited [OF scoreToGrade_letter [of "Num (r_score r)"]] by simp
qed

lemma gpa_step_NaN: "fst (gpa_step w r (NaN, u)) = NaN"
  by (simp add: gpa_step_units)

lemma gpa_step_inherited:
  "r_grade r \<in> set Object_prototype_keys \<Longrightarrow> fst (gpa_step w r (pts, u)) = NaN"
  by (cases pts) (simp_all add: gpa_step_units gp_or_0_inherited)

lemma fold_gpa_step_NaN: "fst (fold (gpa_step w) res (NaN, u)) = NaN"
proof (induction res arbitrary: u)
  case Nil
  then show ?case by simp
next
  case (Cons r res)
  obtain pts' u' where s: "gpa_step w r (NaN, u) = (pts', u')" by (cases "gpa_step w r (NaN, u)")
  with gpa_step_NaN [of w r u] have "pts' = NaN" by simp
  with Cons.IH [of u'] s show ?case by simp
qed

lemma fold_gpa_step_inherited:
  "\<exists>r\<in>set res. r_grade r \<in> set Object_prototype_keys \<Longrightarrow>
   fst (fold (gpa_step w) res (pts, u)) = NaN"
proof (induction res arbitrary: pts u)
  case Nil
  then show ?case by simp
next
  case (Cons r res)
  obtain pts' u' where s: "gpa_step w r (pts, u) = (pts', u')" by (cases "gpa_step w r (pts, u)")
  show ?case
  proof (cases "r_grade r \<in> set Object_prototype_keys")
    case True
    with gpa_step_inherited [of r w pts u] s have "pts' = NaN" by simp
    with s fold_gpa_step_NaN [of w res u'] show ?thesis by simp
  next
    case False
    with Cons.prems have "\<exists>r\<in>set res. r_grade r \<in> set Object_prototype_keys" by simp
    from Cons.IH [OF this, of pts' u'] s show ?thesis by simp
  qed
qed

lemma calcGPA_inherited:
  assumes "\<exists>r\<in>set (results_of sid w). r_grade r \<in> set Object_prototype_keys"
  shows "calcGPA sid w = ''NaN'' \<or> calcGPA sid w = ''0.00''"
proof -
  let ?res = "getResultsForStudent sid w"
  obtain pts u where f: "fold (gpa_step w) ?res (Num 0, Num 0) = (pts, u)"
    by (cases "fold (gpa_step w) ?res (Num 0, Num 0)")
  from assms have "\<exists>r\<in>set ?res. r_grade r \<in> set Object_prototype_keys"
    by (simp add: getResultsForStudent_def)
  from fold_gpa_step_inherited [OF this, of w "Num 0" "Num 0"] f have "pts = NaN" by simp
  then show ?thesis
    using f by (simp add: calcGPA_def Let_def toFixed_def)
qed

lemma calcGPA_3A_2C:
  assumes "map (\<lambda>r. (course_units w r, r_grade r)) (results_of sid w) = [(3, ''A''), (2, ''C'')]"
  shows "calcGPA sid w = ''4.20''"
proof -
  from assms obtain r1 r2 where r: "results_of sid w = [r1, r2]"
    "course_units w r1 = 3" "r_grade r1 = ''A''" "course_units w r2 = 2" "r_grade r2 = ''C''"
    by (auto simp: map_eq_Cons_conv)
  have g: "\<forall>x\<in>set (getResultsForStudent sid w). r_grade x \<notin> set Object_prototype_keys"
    by (simp add: getResultsForStudent_def r Object_prototype_keys_def)
  have u: "\<forall>x\<in>set (getResultsForStudent sid w). course_units w x \<in> \<int>"
    by (simp add: getResultsForStudent_def r)
  have b: "5 * (\<Sum>x\<leftarrow>getResultsForStudent sid w. \<bar>course_units w x\<bar>) \<le> 2 ^ 53"
    by (simp add: getResultsForStudent_def r)
  have tu: "spec_total_units w [r1, r2] = 5" by (simp add: spec_total_units_def r)
  have av: "spec_weighted_average w [r1, r2] = 21 / 5"
    by (simp add: spec_weighted_average_def spec_total_points_def spec_total_units_def r
        spec_grade_point_def)
  show ?thesis
    using calcGPA_exact(2) [OF g u b]
    by (simp add: getResultsForStudent_def r tu av binary64_21_5 toFixed_values)
qed

text \<open>
  Claim C5, as stated: \<open>calcGPA\<close> returns the weighted average of the grade points, with two
  decimals. Three courses of \<open>2 ^ 53\<close>, \<open>1\<close> and \<open>- 2 ^ 53\<close> units, an \<open>A\<close> in each: the
  units add up to 1 and the weighted average is 5, written \<open>"5.00"\<close>. The loop adds in
  binary64, where \<open>2 ^ 53 + 1\<close> is \<open>2 ^ 53\<close>: its units are 0, and the result is \<open>"0.00"\<close>.
\<close>

theorem calcGPA_large_units_counterexample:
  "map (\<lambda>r. (r_grade r, course_units world_big r)) (results_of ''s1'' world_big) =
     [(''A'', 9007199254740992), (''A'', 1), (''A'', - 9007199254740992)] \<and>
   spec_total_units world_big (results_of ''s1'' world_big) = 1 \<and>
   spec_weighted_average world_big (results_of ''s1'' world_big) = 5 \<and>
   spec_calcGPA ''s1'' world_big = ''5.00'' \<and>
   fold (gpa_step world_big) (getResultsForStudent ''s1'' world_big) (Num 0, Num 0) =
     (Num 8, Num 0) \<and>
   calcGPA ''s1'' world_big = ''0.00''"
proof -
  from three_results [OF world_big_results] obtain r1 r2 r3
    where r: "results world_big = [r1, r2, r3]"
      "r_studentId r1 = ''s1''" "r_courseId r1 = ''h1''" "r_grade r1 = ''A''"
      "r_studentId r2 = ''s1''" "r_courseId r2 = ''h2''" "r_grade r2 = ''A''"
      "r_studentId r3 = ''s1''" "r_courseId r3 = ''h3''" "r_grade r3 = ''A''"
    by blast
  have cu: "course_units world_big r1 = 9007199254740992" "course_units world_big r2 = 1"
    "course_units world_big r3 = - 9007199254740992"
    by (simp_all add: course_units_def world_big_courses r)
  have gp: "gp_or_0 ''A'' = Num 5" by (simp add: gp_or_0_def gp_def)
  have s1: "gpa_step world_big r1 (Num 0, Num 0) = (Num 45035996273704960, Num 9007199254740992)"
    by (simp add: gpa_step_units cu r gp to_double_big)
  have s2: "gpa_step world_big r2 (Num 45035996273704960, Num 9007199254740992) =
      (Num 45035996273704968, Num 9007199254740992)"
    by (simp add: gpa_step_units cu r gp to_double_big)
  have s3: "gpa_step world_big r3 (Num 45035996273704968, Num 9007199254740992) =
      (Num 8, Num 0)"
    by (simp add: gpa_step_units cu r gp to_double_big)
  have f: "fold (gpa_step world_big) (getResultsForStudent ''s1'' world_big) (Num 0, Num 0) =
      (Num 8, Num 0)"
    by (simp add: getResultsForStudent_def r s1 s2 s3)
  have c: "calcGPA ''s1'' world_big = ''0.00''"
    by (simp add: calcGPA_def Let_def f truthy_def)
  have tu: "spec_total_units world_big [r1, r2, r3] = 1"
    by (simp add: spec_total_units_def cu)
  have av: "spec_weighted_average world_big [r1, r2, r3] = 5"
    by (simp add: spec_weighted_average_def spec_total_points_def tu cu r spec_grade_point_def)
  have sp: "spec_calcGPA ''s1'' world_big = ''5.00''"
    by (simp add: spec_calcGPA_def Let_def r tu av toFixed_values)
  from f c tu av sp show ?thesis by (simp add: r cu)
qed

text \<open>
  Claim C5, amended. Let no grade of the student be a name that every object inherits
  (no letter is, nor a grade that \<open>upsertResult\<close> writes), let the units of the student's
  results be integers, and let 5 times the sum of their absolute values be at most
  \<open>2 ^ 53\<close>, so that the loop adds without rounding. Then \<open>calcGPA(studentId)\<close> is \<open>"0.00"\<close>
  when the student has no results and when the units of the results add up to zero.
  Otherwise it is the average of the grade points (\<open>A=5\<close>, \<open>B=4\<close>, \<open>C=3\<close>, \<open>D=2\<close>, \<open>F=0\<close>)
  weighted by the units of the courses, divided as a binary64 number (so off the exact
  average by at most its \<open>2 ^ 53\<close>-th part) and written with exactly two decimals: a sign,
  the digits of \<open>n div 100\<close>, a point and the two digits of \<open>n mod 100\<close>, where \<open>n / 100\<close> is
  within half a hundredth of the quotient. Results of 3 units with an \<open>A\<close> and of 2 units
  with a \<open>C\<close> give \<open>"4.20"\<close>.
\<close>

theorem calcGPA_weighted_average:
  assumes "\<forall>r\<in>set (results_of sid w). r_grade r \<notin> set Object_prototype_keys"
    and "\<forall>r\<in>set (results_of sid w). course_units w r \<in> \<int>"
    and "5 * (\<Sum>r\<leftarrow>results_of sid w. \<bar>course_units w r\<bar>) \<le> 2 ^ 53"
  shows "(results_of sid w = [] \<longrightarrow> calcGPA sid w = ''0.00'') \<and>
     (spec_total_units w (results_of sid w) = 0 \<longrightarrow> calcGPA sid w = ''0.00'') \<and>
     (results_of sid w \<noteq> [] \<and> spec_total_units w (results_of sid w) \<noteq> 0 \<longrightarrow>
        calcGPA sid w = toFixed 2 (Num (binary64 (spec_weighted_average w (results_of sid w)))) \<and>
        \<bar>binary64 (spec_weighted_average w (results_of sid w)) -
          spec_weighted_average w (results_of sid w)\<bar> \<le>
          \<bar>spec_weighted_average w (results_of sid w)\<bar> / 2 ^ 53 \<and>
        (\<exists>n\<ge>0. calcGPA sid w =
           (if binary64 (spec_weighted_average w (results_of sid w)) < 0 then ''-'' else []) @
           digits (n div 100) @ ''.'' @ [digit_char (n div 10 mod 10), digit_char (n mod 10)] \<and>
           \<bar>of_int n / 100 - \<bar>binary64 (spec_weighted_average w (results_of sid w))\<bar>\<bar>
             \<le> 1 / 200)) \<and>
     (map (\<lambda>r. (course_units w r, r_grade r)) (results_of sid w) = [(3, ''A''), (2, ''C'')] \<longrightarrow>
        calcGPA sid w = ''4.20'')"
proof -
  let ?res = "results_of sid w"
  let ?q = "binary64 (spec_weighted_average w ?res)"
  have res: "getResultsForStudent sid w = ?res" by (simp add: getResultsForStudent_def)
  note c = calcGPA_exact [of sid w, unfolded res, OF assms]
  have 1: "?res = [] \<longrightarrow> calcGPA sid w = ''0.00''" using c(2) by simp
  have 2: "spec_total_units w ?res = 0 \<longrightarrow> calcGPA sid w = ''0.00''" using c(2) by simp
  have 3: "?res \<noteq> [] \<and> spec_total_units w ?res \<noteq> 0 \<longrightarrow> calcGPA sid w = toFixed 2 (Num ?q)"
    using c(2) by simp
  have 4: "spec_total_units w ?res \<noteq> 0 \<longrightarrow>
      \<bar>?q - spec_weighted_average w ?res\<bar> \<le> \<bar>spec_weighted_average w ?res\<bar> / 2 ^ 53"
    using c(3) by simp
  have 5: "\<exists>n\<ge>0. calcGPA sid w =
         (if ?q < 0 then ''-'' else []) @ digits (n div 100) @ ''.'' @
         [digit_char (n div 10 mod 10), digit_char (n mod 10)] \<and>
         \<bar>of_int n / 100 - \<bar>?q\<bar>\<bar> \<le> 1 / 200"
    if "?res \<noteq> []" "spec_total_units w ?res \<noteq> 0"
  proof -
    have "\<bar>?q\<bar> \<le> 2 ^ 54" using c(4) that(2) by simp
    also have "\<dots> < 10 ^ 21" by simp
    finally have "\<bar>?q\<bar> < 10 ^ 21" .
    from toFixed_2_close [OF this] 3 that show ?thesis by simp
  qed
  have 6: "map (\<lambda>r. (course_units w r, r_grade r)) ?res = [(3, ''A''), (2, ''C'')] \<longrightarrow>
      calcGPA sid w = ''4.20''"
    using calcGPA_3A_2C [of w sid] by simp
  from 1 2 3 4 5 6 show ?thesis by blast
qed

theorem calcGPA_weighted_average_witness:
  "map (\<lambda>r. (r_studentId r, r_grade r, course_units world_gpa r)) (results world_gpa) =
     [(''s1'', ''A'', 3), (''s2'', ''B'', 3), (''s1'', ''C'', 2)] \<and>
   map (\<lambda>r. (r_grade r, course_units world_gpa r)) (results_of ''s1'' world_gpa) =
     [(''A'', 3), (''C'', 2)] \<and>
   spec_weighted_average world_gpa (results_of ''s1'' world_gpa) = 21 / 5 \<and>
   calcGPA ''s1'' world_gpa = ''4.20'' \<and>
   map (\<lambda>r. (r_grade r, course_units world_gpa r)) (results_of ''s2'' world_gpa) =
     [(''B'', 3)] \<and>
   calcGPA ''s2'' world_gpa = ''4.00'' \<and>
   map (\<lambda>r. (r_grade r, course_units world_zero r)) (results_of ''s1'' world_zero) =
     [(''A'', 3), (''A'', - 3)] \<and>
   spec_total_units world_zero (results_of ''s1'' world_zero) = 0 \<and>
   calcGPA ''s1'' world_zero = ''0.00'' \<and>
   results_of ''s1'' world0 = [] \<and> calcGPA ''s1'' world0 = ''0.00''"
proof -
  from three_results [OF world_gpa_results] obtain r1 r2 r3
    where r: "results world_gpa = [r1, r2, r3]"
      "r_studentId r1 = ''s1''" "r_courseId r1 = ''h1''" "r_grade r1 = ''A''"
      "r_studentId r2 = ''s2''" "r_courseId r2 = ''h1''" "r_grade r2 = ''B''"
      "r_studentId r3 = ''s1''" "r_courseId r3 = ''h2''" "r_grade r3 = ''C''"
    by blast
  have cu: "course_units world_gpa r1 = 3" "course_units world_gpa r2 = 3"
    "course_units world_gpa r3 = 2"
    by (simp_all add: course_units_def world_gpa_courses r)
  have res1: "results_of ''s1'' world_gpa = [r1, r3]" by (simp add: r)
  have g1: "\<forall>x\<in>set (results_of ''s1'' world_gpa). r_grade x \<notin> set Object_prototype_keys"
    by (simp add: res1 r Object_prototype_keys_def)
  have u1: "\<forall>x\<in>set (results_of ''s1'' world_gpa). course_units world_gpa x \<in> \<int>"
    by (simp add: res1 cu)
  have b1: "5 * (\<Sum>x\<leftarrow>results_of ''s1'' world_gpa. \<bar>course_units world_gpa x\<bar>) \<le> 2 ^ 53"
    by (simp add: res1 cu)
  have tu1: "spec_total_units world_gpa [r1, r3] = 5"
    by (simp add: spec_total_units_def cu)
  have av1: "spec_weighted_average world_gpa [r1, r3] = 21 / 5"
    by (simp add: spec_weighted_average_def spec_total_points_def tu1 cu r spec_grade_point_def)
  have a: "calcGPA ''s1'' world_gpa = ''4.20''"
    using calcGPA_weighted_average [OF g1 u1 b1]
    by (simp add: res1 tu1 av1 binary64_21_5 toFixed_values)
  have res2: "results_of ''s2'' world_gpa = [r2]" by (simp add: r)
  have g2: "\<forall>x\<in>set (results_of ''s2'' world_gpa). r_grade x \<notin> set Object_prototype_keys"
    by (simp add: res2 r Object_prototype_keys_def)
  have u2: "\<forall>x\<in>set (results_of ''s2'' world_gpa). course_units world_gpa x \<in> \<int>"
    by (simp add: res2 cu)
  have b2: "5 * (\<Sum>x\<leftarrow>results_of ''s2'' world_gpa. \<bar>course_units world_gpa x\<bar>) \<le> 2 ^ 53"
    by (simp add: res2 cu)
  have tu2: "spec_total_units world_gpa [r2] = 3"
    by (simp add: spec_total_units_def cu)
  have av2: "spec_weighted_average world_gpa [r2] = 4"
    by (simp add: spec_weighted_average_def spec_total_points_def tu2 cu r spec_grade_point_def)
  have b64: "binary64 4 = 4" using binary64_int [of 4] by simp
  have b: "calcGPA ''s2'' world_gpa = ''4.00''"
    using calcGPA_weighted_average [OF g2 u2 b2]
    by (simp add: res2 tu2 av2 b64 toFixed_values)
  from three_results [OF world_zero_results] obtain z1 z2 z3
    where z: "results world_zero = [z1, z2, z3]"
      "r_studentId z1 = ''s1''" "r_courseId z1 = ''h1''" "r_grade z1 = ''A''"
      "r_studentId z2 = ''s2''" "r_courseId z2 = ''h1''" "r_grade z2 = ''B''"
      "r_studentId z3 = ''s1''" "r_courseId z3 = ''h2''" "r_grade z3 = ''A''"
    by blast
  have cuz: "course_units world_zero z1 = 3" "course_units world_zero z3 = - 3"
    by (simp_all add: course_units_def world_zero_courses z)
  have resz: "results_of ''s1'' world_zero = [z1, z3]" by (simp add: z)
  have gz: "\<forall>x\<in>set (results_of ''s1'' world_zero). r_grade x \<notin> set Object_prototype_keys"
    by (simp add: resz z Object_prototype_keys_def)
  have uz: "\<forall>x\<in>set (results_of ''s1'' world_zero). course_units world_zero x \<in> \<int>"
    by (simp add: resz cuz)
  have bz: "5 * (\<Sum>x\<leftarrow>results_of ''s1'' world_zero. \<bar>course_units world_zero x\<bar>) \<le> 2 ^ 53"
    by (simp add: resz cuz)
  have tuz: "spec_total_units world_zero [z1, z3] = 0"
    by (simp add: spec_total_units_def cuz)
  have c: "calcGPA ''s1'' world_zero = ''0.00''"
    using calcGPA_weighted_average [OF gz uz bz] by (simp add: resz tuz)
  have res0: "results_of ''s1'' world0 = []" by (simp add: world0_fields)
  have g0: "\<forall>x\<in>set (results_of ''s1'' world0). r_grade x \<notin> set Object_prototype_keys"
    by (simp add: res0)
  have u0: "\<forall>x\<in>set (results_of ''s1'' world0). course_units world0 x \<in> \<int>"
    by (simp add: res0)
  have b0: "5 * (\<Sum>x\<leftarrow>results_of ''s1'' world0. \<bar>course_units world0 x\<bar>) \<le> 2 ^ 53"
    by (simp add: res0)
  have d: "calcGPA ''s1'' world0 = ''0.00''"
    using calcGPA_weighted_average [OF g0 u0 b0] by (simp add: res0)
  from a b c d av1 tuz res0 show ?thesis
    by (simp add: r cu z cuz)
qed




end
